theory Spec2Isabelle
  imports Complex_Main
begin

section \<open>JavaScript values\<close>

text \<open>
  The scheduler keeps its data as JSON in localStorage. A property that may be missing
  (\<open>undefined\<close>) is an \<open>option\<close>; strings are lists of code units below 256; hours,
  counts and millisecond timestamps are integers (they are integral in every producer of
  the source). The capacity of a location is a real number: the location form stores any
  finite number from 1 up. \<open>null\<close> and \<open>undefined\<close> are both \<open>None\<close>.
\<close>

definition truthy :: "string option \<Rightarrow> bool" where
  \<comment> \<open>JavaScript truthiness of a string-valued property: present and not empty.\<close>
  "truthy v = (case v of None \<Rightarrow> False | Some s \<Rightarrow> s \<noteq> [])"

definition orZero :: "int option \<Rightarrow> int" where
  \<comment> \<open>\<open>Number(x || 0)\<close> and \<open>x || 0\<close> on a numeric property.\<close>
  "orZero v = (case v of None \<Rightarrow> 0 | Some n \<Rightarrow> n)"

definition toLowerChar :: "char \<Rightarrow> char" where
  \<comment> \<open>A-Z and the upper-case letters of Latin-1 move up by 32, which sets bit 5.\<close>
  "toLowerChar c =
     (let n = (of_char c :: nat)
      in if (65 \<le> n \<and> n \<le> 90) \<or> (192 \<le> n \<and> n \<le> 222 \<and> n \<noteq> 215)
         then (case c of Char b0 b1 b2 b3 b4 b5 b6 b7 \<Rightarrow> Char b0 b1 b2 b3 b4 True b6 b7)
         else c)"

definition toLowerCase :: "string \<Rightarrow> string" where
  "toLowerCase s = map toLowerChar s"

definition isSpace :: "char \<Rightarrow> bool" where
  \<comment> \<open>The regular-expression class \<open>\s\<close>, on code units below 256.\<close>
  "isSpace c = (let n = (of_char c :: nat) in n = 32 \<or> (9 \<le> n \<and> n \<le> 13) \<or> n = 160)"

function replaceRuns :: "(char \<Rightarrow> bool) \<Rightarrow> string \<Rightarrow> string \<Rightarrow> string" where
  "replaceRuns p rep [] = []"
| "replaceRuns p rep (c # cs) =
     (if p c then rep @ replaceRuns p rep (dropWhile p cs) else c # replaceRuns p rep cs)"
  by pat_completeness auto
termination
  by (relation "measure (\<lambda>(p, rep, s). length s)") (auto simp: length_dropWhile_le less_Suc_eq_le)

definition trim :: "string \<Rightarrow> string" where
  "trim s = rev (dropWhile isSpace (rev (dropWhile isSpace s)))"

section \<open>Data model\<close>

record slot =
  s_id :: "string option"
  s_label :: "string option"
  s_startHour :: "int option"
  s_endHour :: "int option"
  s_minVol :: "int option"
  s_maxVol :: "int option"

record booking =
  b_id :: string
  b_username :: "string option"
  b_displayName :: "string option"
  b_volunteerId :: "string option"
  b_role :: "string option"
  b_locationId :: string
  b_locationName :: "string option"
  b_date :: string
  b_slotId :: "string option"
  b_slotLabel :: "string option"
  b_startHour :: "int option"
  b_endHour :: "int option"
  b_createdAt :: int
  b_status :: "string option"
  b_checkedInAt :: "int option"

record location =
  l_id :: string
  l_name :: string
  slotCapacity :: "real option"

record volunteer =
  v_id :: "string option"
  v_name :: "string option"
  v_email :: "string option"
  v_username :: "string option"
  v_role :: "string option"

record user =
  u_username :: "string option"
  u_displayName :: "string option"
  u_role :: "string option"

record schedules =
  defaults :: "slot list"
  custom :: "string \<rightharpoonup> slot list"

section \<open>admin-schedules.js: the slot catalog\<close>

definition mkSlot :: "string \<Rightarrow> string \<Rightarrow> int \<Rightarrow> int \<Rightarrow> int \<Rightarrow> int \<Rightarrow> slot" where
  "mkSlot i l s e mn mx =
     \<lparr>s_id = Some i, s_label = Some l, s_startHour = Some s, s_endHour = Some e,
      s_minVol = Some mn, s_maxVol = Some mx\<rparr>"

definition DEFAULT_SLOTS :: "slot list" where
  "DEFAULT_SLOTS =
     [mkSlot ''6-8am'' ''6:00 AM - 8:00 AM'' 6 8 1 4,
      mkSlot ''8-10am'' ''8:00 AM - 10:00 AM'' 8 10 1 4,
      mkSlot ''10-12pm'' ''10:00 AM - 12:00 PM'' 10 12 1 4,
      mkSlot ''12-2pm'' ''12:00 PM - 2:00 PM'' 12 14 1 4,
      mkSlot ''2-4pm'' ''2:00 PM - 4:00 PM'' 14 16 1 4,
      mkSlot ''4-6pm'' ''4:00 PM - 6:00 PM'' 16 18 1 4,
      mkSlot ''6-8pm'' ''6:00 PM - 8:00 PM'' 18 20 1 4]"

definition initialSchedules :: schedules where
  \<comment> \<open>A fresh page: the declared defaults, and the empty map \<open>ensureData\<close> writes.\<close>
  "initialSchedules = \<lparr>defaults = DEFAULT_SLOTS, custom = Map.empty\<rparr>"

definition getSlotsForLocation :: "schedules \<Rightarrow> string \<Rightarrow> slot list" where
  \<comment> \<open>\<open>clone\<close> is a JSON round trip: the same value.\<close>
  "getSlotsForLocation sch locationId =
     (if locationId = [] then defaults sch
      else case custom sch locationId of
             None \<Rightarrow> defaults sch
           | Some cs \<Rightarrow> if cs = [] then defaults sch else cs)"

text \<open>
  The mutations of the catalog. \<open>fresh\<close> and \<open>uniq\<close> stand for what \<open>uniqueId\<close>
  returns. \<open>normalizeSlot\<close> fills in and cleans a slot; it rejects nothing.
\<close>

definition normalizeSlot :: "string \<Rightarrow> slot \<Rightarrow> slot" where
  "normalizeSlot fresh sl =
     \<lparr>s_id = Some (replaceRuns isSpace ''-''
               (if truthy (s_id sl) then the (s_id sl)
                else if truthy (s_label sl) then the (s_label sl) else fresh)),
      s_label = Some (trim (if truthy (s_label sl) then the (s_label sl) else [])),
      s_startHour = Some (orZero (s_startHour sl)),
      s_endHour = Some (orZero (s_endHour sl)),
      s_minVol = Some (orZero (s_minVol sl)),
      s_maxVol = Some (orZero (s_maxVol sl))\<rparr>"

definition setSlotsForLocation :: "schedules \<Rightarrow> (nat \<Rightarrow> string) \<Rightarrow> string \<Rightarrow> slot list \<Rightarrow> schedules" where
  "setSlotsForLocation sch fresh locationId slotsArray =
     (if locationId = [] then sch
      else sch\<lparr>custom := (custom sch)(locationId \<mapsto>
                  map (\<lambda>(i, sl). normalizeSlot (fresh i) sl) (enumerate 0 slotsArray))\<rparr>)"

definition addSlotToLocation :: "schedules \<Rightarrow> string \<Rightarrow> string \<Rightarrow> slot \<Rightarrow> schedules \<times> slot list" where
  "addSlotToLocation sch fresh locationId sl =
     (let lst = (case custom sch locationId of
                   Some cs \<Rightarrow> cs
                 | None \<Rightarrow> getSlotsForLocation sch locationId);
          sl' = sl\<lparr>s_id := (if truthy (s_id sl) then s_id sl else Some fresh)\<rparr>;
          lst' = lst @ [normalizeSlot fresh sl']
      in (sch\<lparr>custom := (custom sch)(locationId \<mapsto> lst')\<rparr>, lst'))"

definition removeSlotFromLocation :: "schedules \<Rightarrow> string \<Rightarrow> string option \<Rightarrow> schedules \<times> bool" where
  "removeSlotFromLocation sch locationId slotId =
     (case custom sch locationId of
        None \<Rightarrow> (sch, False)
      | Some cs \<Rightarrow>
          (let kept = filter (\<lambda>s. s_id s \<noteq> slotId) cs
           in (sch\<lparr>custom := (custom sch)(locationId \<mapsto> kept)\<rparr>, length kept < length cs)))"

definition resetToDefaults :: "schedules \<Rightarrow> string \<Rightarrow> schedules" where
  "resetToDefaults sch locId = sch\<lparr>custom := (custom sch)(locId \<mapsto> defaults sch)\<rparr>"

text \<open>
  The slot editor (\<open>openEditSlotsModal\<close>): its Save handler checks every slot of the
  edited list and stores the list only when no check fails. A comparison with a missing
  number is false, as with NaN.
\<close>

datatype slotError = LabelRequired nat | InvalidHours nat | NegativeMinMax nat | MinExceedsMax nat

definition ltZero :: "int option \<Rightarrow> bool" where
  "ltZero v = (case v of None \<Rightarrow> False | Some n \<Rightarrow> n < 0)"

definition minExceedsMax :: "int option \<Rightarrow> int option \<Rightarrow> bool" where
  "minExceedsMax mn mx =
     (case mx of
        None \<Rightarrow> False
      | Some x \<Rightarrow> x > 0 \<and> (case mn of None \<Rightarrow> False | Some n \<Rightarrow> n > x))"

definition invalidHours :: "int option \<Rightarrow> int option \<Rightarrow> bool" where
  "invalidHours st en =
     (case (st, en) of (Some a, Some b) \<Rightarrow> a \<ge> b | _ \<Rightarrow> True)"

definition slotErrors :: "nat \<Rightarrow> slot \<Rightarrow> slotError list" where
  "slotErrors i s =
     (if \<not> truthy (s_label s) then [LabelRequired (i + 1)] else []) @
     (if invalidHours (s_startHour s) (s_endHour s) then [InvalidHours (i + 1)] else []) @
     (if ltZero (s_minVol s) \<or> ltZero (s_maxVol s) then [NegativeMinMax (i + 1)] else []) @
     (if minExceedsMax (s_minVol s) (s_maxVol s) then [MinExceedsMax (i + 1)] else [])"

datatype saveResult = Saved | ValidationErrors "slotError list"

definition saveSlots :: "schedules \<Rightarrow> (nat \<Rightarrow> string) \<Rightarrow> string \<Rightarrow> slot list \<Rightarrow> saveResult \<times> schedules" where
  "saveSlots sch fresh locationId currentSlots =
     (let errs = concat (map (\<lambda>(i, s). slotErrors i s) (enumerate 0 currentSlots))
      in if errs \<noteq> [] then (ValidationErrors errs, sch)
         else
           (let cleaned =
                  map (\<lambda>(i, s).
                         normalizeSlot (fresh i)
                           (s\<lparr>s_id := Some (replaceRuns isSpace ''-''
                                    (if truthy (s_id s) then the (s_id s) else fresh i))\<rparr>))
                      (enumerate 0 currentSlots)
            in (Saved, setSlotsForLocation sch fresh locationId cleaned)))"

text \<open>
  Add global slot (\<open>openAddGlobalSlotModal\<close>): the form's values after \<open>Number(...)\<close>;
  a valid slot is pushed onto the in-memory \<open>DEFAULT_SLOTS\<close> array.
\<close>

definition isSlugChar :: "char \<Rightarrow> bool" where
  "isSlugChar c = (let n = (of_char c :: nat) in (97 \<le> n \<and> n \<le> 122) \<or> (48 \<le> n \<and> n \<le> 57))"

definition slugify :: "string \<Rightarrow> string" where
  "slugify text =
     (let dashed = replaceRuns (\<lambda>c. \<not> isSlugChar c) ''-'' (trim (toLowerCase text))
      in rev (dropWhile (\<lambda>c. c = CHR ''-'') (rev (dropWhile (\<lambda>c. c = CHR ''-'') dashed))))"

datatype formError = LabelMissing | InvalidStartEnd | NegativeValues | MinOverMax

definition addGlobalSlot ::
    "schedules \<Rightarrow> string \<Rightarrow> string \<Rightarrow> int \<Rightarrow> int \<Rightarrow> int \<Rightarrow> int \<Rightarrow> formError list \<times> schedules" where
  "addGlobalSlot sch uniq labelValue sH eH minV maxV =
     (let label = trim labelValue;
          errors =
            (if label = [] then [LabelMissing] else []) @
            (if sH \<ge> eH then [InvalidStartEnd] else []) @
            (if minV < 0 \<or> maxV < 0 then [NegativeValues] else []) @
            (if maxV > 0 \<and> minV > maxV then [MinOverMax] else [])
      in if errors \<noteq> [] then (errors, sch)
         else ([], sch\<lparr>defaults := defaults sch @
                 [normalizeSlot uniq
                    \<lparr>s_id = Some (slugify label @ ''-'' @ uniq), s_label = Some label,
                     s_startHour = Some sH, s_endHour = Some eH,
                     s_minVol = Some minV, s_maxVol = Some maxV\<rparr>]\<rparr>))"


section \<open>admin-assignments.js: conflict detection\<close>

definition slotRange :: "slot \<Rightarrow> int \<times> int" where
  "slotRange sl = (orZero (s_startHour sl), orZero (s_endHour sl))"

definition rangesOverlap :: "int \<Rightarrow> int \<Rightarrow> int \<Rightarrow> int \<Rightarrow> bool" where
  "rangesOverlap aStart aEnd bStart bEnd = (aStart < bEnd \<and> bStart < aEnd)"

definition matchesVolunteerOnDate :: "string option \<Rightarrow> string \<Rightarrow> booking \<Rightarrow> bool" where
  \<comment> \<open>The filter callback of \<open>getAssignmentsForVolunteerOnDate\<close>.\<close>
  "matchesVolunteerOnDate volIdOrName dateStr b =
     (if b_date b \<noteq> dateStr then False
      else if \<not> truthy volIdOrName then False
      else let v = toLowerCase (the volIdOrName)
           in if truthy (b_username b) \<and> toLowerCase (the (b_username b)) = v then True
              else if truthy (b_displayName b) \<and> toLowerCase (the (b_displayName b)) = v then True
              else if truthy (b_volunteerId b) \<and> b_volunteerId b = volIdOrName then True
              else False)"

definition getAssignmentsForVolunteerOnDate ::
    "string option \<Rightarrow> string \<Rightarrow> booking list \<Rightarrow> booking list" where
  "getAssignmentsForVolunteerOnDate volIdOrName dateStr allB =
     filter (matchesVolunteerOnDate volIdOrName dateStr) allB"

definition existingSlotOf :: "schedules \<Rightarrow> booking \<Rightarrow> slot" where
  \<comment> \<open>\<open>slots.find(s => s.id === b.slotId) || { startHour: b.startHour || 0, endHour: b.endHour || 0 }\<close>\<close>
  "existingSlotOf sch b =
     (case find (\<lambda>s. s_id s = b_slotId b) (getSlotsForLocation sch (b_locationId b)) of
        Some s \<Rightarrow> s
      | None \<Rightarrow> \<lparr>s_id = None, s_label = None,
                 s_startHour = Some (orZero (b_startHour b)),
                 s_endHour = Some (orZero (b_endHour b)),
                 s_minVol = None, s_maxVol = None\<rparr>)"

fun conflictLoop :: "schedules \<Rightarrow> int \<times> int \<Rightarrow> booking list \<Rightarrow> (booking \<times> slot) option" where
  "conflictLoop sch newRange [] = None"
| "conflictLoop sch newRange (b # rest) =
     (let slotObj = existingSlotOf sch b; existingRange = slotRange slotObj
      in if rangesOverlap (fst newRange) (snd newRange) (fst existingRange) (snd existingRange)
         then Some (b, slotObj)
         else conflictLoop sch newRange rest)"

definition detectConflictFor ::
    "schedules \<Rightarrow> booking list \<Rightarrow> string option \<Rightarrow> string \<Rightarrow> slot \<Rightarrow> (booking \<times> slot) option" where
  \<comment> \<open>\<open>Some (b, slotObj)\<close> is \<open>{ conflict: true, booking: b, existingSlot: slotObj }\<close>,
      \<open>None\<close> is \<open>{ conflict: false }\<close>.\<close>
  "detectConflictFor sch allB volIdentifier dateStr newSlot =
     conflictLoop sch (slotRange newSlot) (getAssignmentsForVolunteerOnDate volIdentifier dateStr allB)"

definition slotMapEntry :: "slot \<Rightarrow> slot" where
  \<comment> \<open>The grid's column header for a slot, \<open>slotMap[s.id]\<close>: label and hours, no \<open>id\<close>.
      It is the slot object the grid hands to \<open>detectConflictFor\<close> and \<open>makeBooking\<close>.\<close>
  "slotMapEntry s =
     \<lparr>s_id = None, s_label = s_label s, s_startHour = s_startHour s,
      s_endHour = s_endHour s, s_minVol = None, s_maxVol = None\<rparr>"

definition slotMapOf :: "schedules \<Rightarrow> location list \<Rightarrow> string \<Rightarrow> slot option" where
  \<comment> \<open>\<open>slotMap[slotId]\<close> of \<open>renderGridForDate\<close>: the header entry of the first slot with
      this id over the catalogs of all locations, in directory order.\<close>
  "slotMapOf sch locations slotId =
     map_option slotMapEntry
       (find (\<lambda>s. s_id s = Some slotId)
          (concat (map (\<lambda>l. getSlotsForLocation sch (l_id l)) locations)))"

definition addAssignment :: "booking list \<Rightarrow> booking \<Rightarrow> booking list" where
  \<comment> \<open>\<open>loadBookings\<close>, \<open>push\<close>, \<open>saveBookings\<close>: the new persisted list.\<close>
  "addAssignment allB assignment = allB @ [assignment]"


definition makeBooking :: "string \<Rightarrow> int \<Rightarrow> volunteer \<Rightarrow> location \<Rightarrow> slot \<Rightarrow> string \<Rightarrow> booking" where
  \<comment> \<open>\<open>newId\<close> is what \<open>uid('bk-')\<close> returns, \<open>now\<close> what \<open>Date.now()\<close> returns.
      The object has no \<open>status\<close> property.\<close>
  "makeBooking newId now vol loc slotObj dateStr =
     \<lparr>b_id = newId,
      b_username =
        (if truthy (v_email vol) then v_email vol
         else if truthy (v_id vol) then v_id vol
         else Some (replaceRuns isSpace ''.''
                (toLowerCase (if truthy (v_name vol) then the (v_name vol) else [])))),
      b_displayName =
        (if truthy (v_name vol) then v_name vol
         else if truthy (v_email vol) then v_email vol
         else Some ''Volunteer''),
      b_volunteerId = (if truthy (v_id vol) then v_id vol else None),
      b_role = (if truthy (v_role vol) then v_role vol else Some ''volunteer''),
      b_locationId = l_id loc,
      b_locationName = Some (l_name loc),
      b_date = dateStr,
      b_slotId = s_id slotObj,
      b_slotLabel = s_label slotObj,
      b_startHour = s_startHour slotObj,
      b_endHour = s_endHour slotObj,
      b_createdAt = now,
      b_status = None,
      b_checkedInAt = None\<rparr>"

datatype assignOutcome =
    Assigned
  | CellNotConfigured
  | UnknownVolunteer
  | SlotNotAvailable
  | PossibleDoubleBooking booking

definition volIdentifier :: "volunteer \<Rightarrow> string option" where
  \<comment> \<open>\<open>vol.id || vol.name || vol.email || vol.username\<close>\<close>
  "volIdentifier vol =
     (if truthy (v_id vol) then v_id vol
      else if truthy (v_name vol) then v_name vol
      else if truthy (v_email vol) then v_email vol
      else v_username vol)"

definition assignOnDrop ::
    "schedules \<Rightarrow> location list \<Rightarrow> booking list \<Rightarrow> volunteer option \<Rightarrow> location \<Rightarrow> string \<Rightarrow>
     string \<Rightarrow> bool \<Rightarrow> string \<Rightarrow> int \<Rightarrow> assignOutcome \<times> booking list" where
  \<comment> \<open>The drop handler of a grid cell. A cell takes drops only when the location's catalog
      has the slot id. \<open>volFound\<close> is the result of \<open>findVolunteerById\<close>; \<open>assignAnyway\<close>
      says whether the administrator confirms the double-booking warning. The capacity of
      the location is not read.\<close>
  "assignOnDrop sch locations allB volFound loc slotId dateStr assignAnyway newId now =
     (case find (\<lambda>s. s_id s = Some slotId) (getSlotsForLocation sch (l_id loc)) of
        None \<Rightarrow> (CellNotConfigured, allB)
      | Some locSlot \<Rightarrow>
          (case volFound of
             None \<Rightarrow> (UnknownVolunteer, allB)
           | Some vol \<Rightarrow>
               (let slotObj = (case slotMapOf sch locations slotId of
                                 Some e \<Rightarrow> e
                               | None \<Rightarrow> locSlot)
                in case detectConflictFor sch allB (volIdentifier vol) dateStr slotObj of
                     Some (b, existingSlot) \<Rightarrow>
                       if assignAnyway
                       then (Assigned,
                             addAssignment allB (makeBooking newId now vol loc slotObj dateStr))
                       else (PossibleDoubleBooking b, allB)
                   | None \<Rightarrow>
                       (Assigned,
                        addAssignment allB (makeBooking newId now vol loc slotObj dateStr)))))"

section \<open>volunteer-dashboard.js: self-service booking and cancellation\<close>

datatype outcome =
    Done
  | PleaseCompleteAllSteps
  | NotSignedIn
  | LocationNotFound
  | AlreadyBooked
  | SlotFull
  | BookingNotFound
  | TooLateToCancel
  | CancelNotOffered
  | RenderFailed

definition addBooking :: "booking list \<Rightarrow> booking \<Rightarrow> booking list" where
  "addBooking allB bk = allB @ [bk]"

definition removeBookingById :: "booking list \<Rightarrow> string \<Rightarrow> booking list" where
  "removeBookingById allB i = filter (\<lambda>b. b_id b \<noteq> i) allB"

definition getBookingsFor :: "booking list \<Rightarrow> string \<Rightarrow> string \<Rightarrow> string option \<Rightarrow> booking list" where
  "getBookingsFor allB locationId dateStr slotId =
     filter (\<lambda>b. b_locationId b = locationId \<and> b_date b = dateStr \<and> b_slotId b = slotId) allB"

definition userHasBookingForSlot ::
    "booking list \<Rightarrow> string option \<Rightarrow> string \<Rightarrow> string \<Rightarrow> string option \<Rightarrow> bool" where
  "userHasBookingForSlot allB username locationId dateStr slotId =
     list_ex (\<lambda>b. b_username b = username \<and> b_locationId b = locationId \<and>
                   b_date b = dateStr \<and> b_slotId b = slotId) allB"

definition slotStartDateTime :: "(string \<Rightarrow> int \<Rightarrow> int option) \<Rightarrow> string \<Rightarrow> slot \<Rightarrow> int option" where
  \<comment> \<open>\<open>parseDateStr\<close> builds the date at local midnight and \<open>setHours(h, 0, 0, 0)\<close> moves
      it to the wall-clock hour \<open>h\<close> of that day. \<open>localTime dateStr h\<close> is the epoch time, in
      milliseconds, of that instant in the browser's time zone (on a day when the clocks
      change it is not midnight plus \<open>h\<close> hours), and \<open>None\<close> for an invalid date. A slot
      without \<open>startHour\<close> gives an invalid date as well.\<close>
  "slotStartDateTime localTime dateStr sl =
     (case s_startHour sl of None \<Rightarrow> None | Some h \<Rightarrow> localTime dateStr h)"

definition tooLate :: "int option \<Rightarrow> int \<Rightarrow> bool" where
  \<comment> \<open>\<open>diffMs = slotStart - Date.now(); diffMs < 30 * 60 * 1000\<close>. With an invalid date
      \<open>diffMs\<close> is NaN and the comparison is false.\<close>
  "tooLate slotStart now =
     (case slotStart of None \<Rightarrow> False | Some start \<Rightarrow> start - now < 30 * 60 * 1000)"

definition isFull :: "booking list \<Rightarrow> location \<Rightarrow> bool" where
  \<comment> \<open>\<open>assigned.length >= loc.slotCapacity\<close>; with the capacity missing the comparison
      is with \<open>undefined\<close> and is false.\<close>
  "isFull assigned loc =
     (case slotCapacity loc of None \<Rightarrow> False | Some c \<Rightarrow> real (length assigned) \<ge> c)"

definition volunteerBooking :: "string \<Rightarrow> int \<Rightarrow> user \<Rightarrow> location \<Rightarrow> string \<Rightarrow> slot \<Rightarrow> booking" where
  \<comment> \<open>The object literal of both booking handlers: no \<open>status\<close>, no hours, no \<open>volunteerId\<close>.\<close>
  "volunteerBooking newId now usr loc dateStr ts =
     \<lparr>b_id = newId,
      b_username = u_username usr,
      b_displayName = (if truthy (u_displayName usr) then u_displayName usr else u_username usr),
      b_volunteerId = None,
      b_role = (if truthy (u_role usr) then u_role usr else Some ''volunteer''),
      b_locationId = l_id loc,
      b_locationName = Some (l_name loc),
      b_date = dateStr,
      b_slotId = s_id ts,
      b_slotLabel = s_label ts,
      b_startHour = None,
      b_endHour = None,
      b_createdAt = now,
      b_status = None,
      b_checkedInAt = None\<rparr>"

definition confirmBooking ::
    "booking list \<Rightarrow> user option \<Rightarrow> location option \<Rightarrow> string option \<Rightarrow> slot option \<Rightarrow>
     string \<Rightarrow> int \<Rightarrow> outcome \<times> booking list" where
  \<comment> \<open>The click handler of \<open>#confirm-booking-btn\<close> followed by the modal's \<open>onConfirm\<close>.\<close>
  "confirmBooking allB usr selectedLocation selectedDate selectedSlot newId now =
     (case (selectedLocation, selectedSlot) of
        (Some loc, Some ts) \<Rightarrow>
          if \<not> truthy selectedDate then (PleaseCompleteAllSteps, allB)
          else (case usr of
                  None \<Rightarrow> (NotSignedIn, allB)
                | Some u \<Rightarrow>
                    if userHasBookingForSlot allB (u_username u) (l_id loc) (the selectedDate) (s_id ts)
                    then (AlreadyBooked, allB)
                    else if isFull (getBookingsFor allB (l_id loc) (the selectedDate) (s_id ts)) loc
                    then (SlotFull, allB)
                    else (Done, addBooking allB
                                  (volunteerBooking newId now u loc (the selectedDate) ts)))
      | _ \<Rightarrow> (PleaseCompleteAllSteps, allB))"

definition bookFromLocationModal ::
    "booking list \<Rightarrow> booking list \<Rightarrow> location list \<Rightarrow> user option \<Rightarrow> string \<Rightarrow> string \<Rightarrow> slot \<Rightarrow>
     string \<Rightarrow> int \<Rightarrow> outcome \<times> booking list" where
  \<comment> \<open>\<open>openLocationModal\<close>: the Book button of a slot card, then the modal's \<open>onConfirm\<close>.
      \<open>renderGridForDate\<close> computes \<open>assigned\<close> and \<open>alreadyBooked\<close> when it draws the card,
      from the bookings persisted then, \<open>drawB\<close>; the click handler tests these two values
      (the button is also disabled when either holds). \<open>addBooking\<close> reads the list again
      and appends to what is persisted at that time, \<open>allB\<close>.\<close>
  "bookFromLocationModal drawB allB locations usr locationId dateStr ts newId now =
     (case find (\<lambda>l. l_id l = locationId) locations of
        None \<Rightarrow> (LocationNotFound, allB)
      | Some loc \<Rightarrow>
          (case usr of
             None \<Rightarrow> (NotSignedIn, allB)
           | Some u \<Rightarrow>
               if isFull (getBookingsFor drawB (l_id loc) dateStr (s_id ts)) loc
               then (SlotFull, allB)
               else if userHasBookingForSlot drawB (u_username u) (l_id loc) dateStr (s_id ts)
               then (AlreadyBooked, allB)
               else (Done, addBooking allB (volunteerBooking newId now u loc dateStr ts))))"

definition cancelFromLocationModal ::
    "booking list \<Rightarrow> (string \<Rightarrow> int \<Rightarrow> int option) \<Rightarrow> int \<Rightarrow> user \<Rightarrow> location \<Rightarrow> string \<Rightarrow> slot \<Rightarrow>
     outcome \<times> booking list" where
  \<comment> \<open>The Cancel button of a slot card the user has booked, then the modal's \<open>onConfirm\<close>.\<close>
  "cancelFromLocationModal allB localTime now usr loc dateStr ts =
     (case find (\<lambda>item. b_username item = u_username usr \<and> b_locationId item = l_id loc \<and>
                         b_date item = dateStr \<and> b_slotId item = s_id ts) allB of
        None \<Rightarrow> (BookingNotFound, allB)
      | Some b \<Rightarrow>
          if tooLate (slotStartDateTime localTime dateStr ts) now then (TooLateToCancel, allB)
          else (Done, removeBookingById allB (b_id b)))"

definition slotForAssignment :: "schedules \<Rightarrow> booking \<Rightarrow> slot" where
  \<comment> \<open>\<open>locationSlots.find(s => s.id === b.slotId) || { label: b.slotLabel, startHour: 0 }\<close>\<close>
  "slotForAssignment sch b =
     (case find (\<lambda>s. s_id s = b_slotId b) (getSlotsForLocation sch (b_locationId b)) of
        Some s \<Rightarrow> s
      | None \<Rightarrow> \<lparr>s_id = None, s_label = b_slotLabel b, s_startHour = Some 0,
                 s_endHour = None, s_minVol = None, s_maxVol = None\<rparr>)"

definition getUserBookings :: "booking list \<Rightarrow> string option \<Rightarrow> booking list" where
  \<comment> \<open>\<open>b.username && b.username.toLowerCase() === (username || '').toLowerCase()\<close>\<close>
  "getUserBookings allB username =
     filter (\<lambda>b. truthy (b_username b) \<and>
                 toLowerCase (the (b_username b)) =
                   toLowerCase (case username of None \<Rightarrow> [] | Some u \<Rightarrow> u)) allB"

definition comparatorThrows :: "booking \<Rightarrow> booking \<Rightarrow> bool" where
  \<comment> \<open>The comparator of the sort in \<open>renderMyAssignments\<close>,
      \<open>a.date.localeCompare(b.date) || a.slotId.localeCompare(b.slotId)\<close>, reads
      \<open>a.slotId.localeCompare\<close> when the dates compare equal, and that is a TypeError when
      \<open>a\<close> has no \<open>slotId\<close>. Dates are the strings of \<open>formatDate\<close> and of the date input,
      which compare equal only when they are the same string.\<close>
  "comparatorThrows a b = (b_date a = b_date b \<and> b_slotId a = None)"

definition sortThrows :: "(booking list \<Rightarrow> (booking \<times> booking) list) \<Rightarrow> booking list \<Rightarrow> bool" where
  \<comment> \<open>Which pairs \<open>Array.prototype.sort\<close> hands to the comparator is left to the engine:
      \<open>sortCalls xs\<close> is the sequence of its calls on \<open>xs\<close>, each on two elements of
      \<open>xs\<close>. A list shorter than two has nothing to compare.\<close>
  "sortThrows sortCalls xs =
     (length xs \<ge> 2 \<and>
      list_ex (\<lambda>(a, b). a \<in> set xs \<and> b \<in> set xs \<and> comparatorThrows a b) (sortCalls xs))"

definition cancelFromMyAssignments ::
    "(booking list \<Rightarrow> (booking \<times> booking) list) \<Rightarrow> booking list \<Rightarrow> booking list \<Rightarrow> schedules \<Rightarrow>
     (string \<Rightarrow> int \<Rightarrow> int option) \<Rightarrow> user option \<Rightarrow> int \<Rightarrow> int \<Rightarrow> booking \<Rightarrow>
     outcome \<times> booking list" where
  \<comment> \<open>\<open>renderMyAssignments\<close> draws the list at \<open>renderNow\<close> from the bookings persisted
      then, \<open>renderB\<close>: it sorts the user's bookings (an exception there leaves nothing
      drawn) and gives a Cancel button only to a reservation in the upcoming bucket
      (\<open>slotStart >= now\<close>, false for an invalid date). The button of the card of \<open>bk\<close> is
      clicked at \<open>now\<close> and compares with the \<open>slotStart\<close> computed when the card was
      drawn; then the modal's \<open>onConfirm\<close> removes from the list persisted at that time,
      \<open>allB\<close>.\<close>
  "cancelFromMyAssignments sortCalls renderB allB sch localTime usr renderNow now bk =
     (case usr of
        None \<Rightarrow> (NotSignedIn, allB)
      | Some u \<Rightarrow>
          (let mine = getUserBookings renderB (u_username u)
           in if sortThrows sortCalls mine then (RenderFailed, allB)
              else if bk \<notin> set mine then (CancelNotOffered, allB)
              else (let slotStart = slotStartDateTime localTime (b_date bk) (slotForAssignment sch bk)
                    in case slotStart of
                         None \<Rightarrow> (CancelNotOffered, allB)
                       | Some start \<Rightarrow>
                           if \<not> (start \<ge> renderNow) then (CancelNotOffered, allB)
                           else if tooLate slotStart now then (TooLateToCancel, allB)
                           else (Done, removeBookingById allB (b_id bk)))))"


section \<open>admin-reports.js and elder-dashboard.js: hours and status of a booking\<close>

text \<open>
  \<open>slotHoursFromBooking\<close> is the same function in both files. Its two regular
  expressions are matched here by hand. From a start position the first,
  \<open>(\d{1,2})(?::\d{2})?\s*(AM|PM)?\s*[-]\s*(\d{1,2})(?::\d{2})?\s*(AM|PM)?\<close> with flag i,
  has one way to succeed: every greedy choice is the only one after which the next
  pattern element can match (a digit, a colon, a space or a letter left behind is never
  the hyphen). \<open>firstMatch\<close> tries the start positions from the left, as \<open>match\<close> does.
  The second is \<open>(\d+)[^\d]+(\d+)\<close>. Strings hold code units below 256, so the en dash
  the first class also admits does not occur.
\<close>

definition isDigit :: "char \<Rightarrow> bool" where
  "isDigit c = (let n = (of_char c :: nat) in 48 \<le> n \<and> n \<le> 57)"

definition digitsToInt :: "string \<Rightarrow> int" where
  \<comment> \<open>\<open>Number\<close> of a run of digits. It is the exact value for a run of at most 15 digits
      (all values below \<open>2^53\<close>); on a longer run \<open>Number\<close> rounds to the nearest double.\<close>
  "digitsToInt ds = foldl (\<lambda>a c. 10 * a + (int (of_char c) - 48)) 0 ds"

fun firstMatch :: "(string \<Rightarrow> 'a option) \<Rightarrow> string \<Rightarrow> 'a option" where
  "firstMatch f [] = f []"
| "firstMatch f (c # cs) = (case f (c # cs) of Some m \<Rightarrow> Some m | None \<Rightarrow> firstMatch f cs)"

fun takeDigits12 :: "string \<Rightarrow> (string \<times> string) option" where
  "takeDigits12 (a # b # r) =
     (if isDigit a \<and> isDigit b then Some ([a, b], r)
      else if isDigit a then Some ([a], b # r) else None)"
| "takeDigits12 [a] = (if isDigit a then Some ([a], []) else None)"
| "takeDigits12 [] = None"

fun skipMinutes :: "string \<Rightarrow> string" where
  "skipMinutes (c # a # b # r) =
     (if c = CHR '':'' \<and> isDigit a \<and> isDigit b then r else c # a # b # r)"
| "skipMinutes s = s"

fun takeAmPm :: "string \<Rightarrow> string option \<times> string" where
  "takeAmPm (a # m # r) =
     (if (a = CHR ''A'' \<or> a = CHR ''a'' \<or> a = CHR ''P'' \<or> a = CHR ''p'') \<and>
         (m = CHR ''M'' \<or> m = CHR ''m'')
      then (Some [a, m], r) else (None, a # m # r))"
| "takeAmPm s = (None, s)"

definition matchLabelAt :: "string \<Rightarrow> (string \<times> string option \<times> string \<times> string option) option" where
  "matchLabelAt s =
     (case takeDigits12 s of
        None \<Rightarrow> None
      | Some (d1, r1) \<Rightarrow>
          (let (ap1, r2) = takeAmPm (dropWhile isSpace (skipMinutes r1))
           in case dropWhile isSpace r2 of
                [] \<Rightarrow> None
              | c # r3 \<Rightarrow>
                  if c \<noteq> CHR ''-'' then None
                  else (case takeDigits12 (dropWhile isSpace r3) of
                          None \<Rightarrow> None
                        | Some (d2, r4) \<Rightarrow>
                            Some (d1, ap1, d2,
                                  fst (takeAmPm (dropWhile isSpace (skipMinutes r4)))))))"

definition matchIdAt :: "string \<Rightarrow> (string \<times> string) option" where
  "matchIdAt s =
     (let d1 = takeWhile isDigit s;
          r1 = dropWhile isDigit s;
          sep = takeWhile (\<lambda>c. \<not> isDigit c) r1;
          d2 = takeWhile isDigit (dropWhile (\<lambda>c. \<not> isDigit c) r1)
      in if d1 \<noteq> [] \<and> sep \<noteq> [] \<and> d2 \<noteq> [] then Some (d1, d2) else None)"

definition isPM :: "string option \<Rightarrow> bool" where
  \<comment> \<open>\<open>(m || '').toUpperCase() === 'PM'\<close> for a captured group \<open>(AM|PM)\<close>.\<close>
  "isPM ap =
     (case ap of
        Some [a, m] \<Rightarrow> (a = CHR ''P'' \<or> a = CHR ''p'') \<and> (m = CHR ''M'' \<or> m = CHR ''m'')
      | _ \<Rightarrow> False)"

definition slotHoursFromBooking :: "schedules \<Rightarrow> booking \<Rightarrow> int \<times> int" where
  "slotHoursFromBooking sch b =
     (if b_startHour b \<noteq> None \<and> b_endHour b \<noteq> None
      then (the (b_startHour b), the (b_endHour b))
      else
        case find (\<lambda>s. s_id s = b_slotId b) (getSlotsForLocation sch (b_locationId b)) of
          Some sl \<Rightarrow> (orZero (s_startHour sl), orZero (s_endHour sl))
        | None \<Rightarrow>
            (case firstMatch matchLabelAt
                    (if truthy (b_slotLabel b) then the (b_slotLabel b)
                     else if truthy (b_slotId b) then the (b_slotId b) else []) of
               Some (m1, m2, m3, m4) \<Rightarrow>
                 (let s = digitsToInt m1; e = digitsToInt m3
                  in (if isPM m2 \<and> s < 12 then s + 12 else s,
                      if isPM m4 \<and> e < 12 then e + 12 else e))
             | None \<Rightarrow>
                 (case firstMatch matchIdAt
                         (if truthy (b_slotId b) then the (b_slotId b) else []) of
                    Some (n1, n2) \<Rightarrow> (digitsToInt n1, digitsToInt n2)
                  | None \<Rightarrow> (0, 0))))"

definition durationHoursFromBooking :: "schedules \<Rightarrow> booking \<Rightarrow> int" where
  "durationHoursFromBooking sch b =
     (let h = slotHoursFromBooking sch b; dur = snd h - fst h in if dur < 0 then 0 else dur)"

text \<open>
  The readers of \<open>status\<close>: the attendance summary of \<open>generateReport\<close> (the elder
  dashboard's summary counts the same way), the status badges of both files, the CSV
  export, and the status cell of the three printed reports.
\<close>

definition escapeHtml :: "string \<Rightarrow> string" where
  "escapeHtml s =
     concat (map (\<lambda>c. if c = CHR ''&'' then ''&amp;''
                        else if c = CHR ''<'' then ''&lt;''
                        else if c = CHR ''>'' then ''&gt;'' else [c]) s)"

record attendance =
  totalAssignments :: nat
  checkedIn :: nat
  noShows :: nat
  cancelled :: nat
  assigned :: nat

definition attendanceSummary :: "booking list \<Rightarrow> attendance" where
  "attendanceSummary bookings =
     \<lparr>totalAssignments = length bookings,
      checkedIn = length (filter (\<lambda>b. b_status b = Some ''checked-in'') bookings),
      noShows = length (filter (\<lambda>b. b_status b = Some ''no-show'') bookings),
      cancelled = length (filter (\<lambda>b. b_status b = Some ''cancelled'') bookings),
      assigned = length (filter (\<lambda>b. \<not> truthy (b_status b) \<or> b_status b = Some ''assigned'') bookings)\<rparr>"

datatype badge = BadgeAssigned | BadgeCheckedIn | BadgeNoShow | BadgeCancelled | BadgeText string

definition renderStatusBadge :: "string option \<Rightarrow> badge" where
  "renderStatusBadge status =
     (if \<not> truthy status \<or> status = Some ''assigned'' then BadgeAssigned
      else if status = Some ''checked-in'' then BadgeCheckedIn
      else if status = Some ''no-show'' then BadgeNoShow
      else if status = Some ''cancelled'' then BadgeCancelled
      else BadgeText (escapeHtml (the status)))"

definition renderStatusReadOnly :: "string option \<Rightarrow> badge" where
  "renderStatusReadOnly status =
     (if \<not> truthy status \<or> status = Some ''assigned'' then BadgeAssigned
      else if status = Some ''checked-in'' then BadgeCheckedIn
      else if status = Some ''no-show'' then BadgeNoShow
      else if status = Some ''cancelled'' then BadgeCancelled
      else BadgeText (escapeHtml (the status)))"

definition exportStatus :: "booking \<Rightarrow> string" where
  "exportStatus b = (if truthy (b_status b) then the (b_status b) else ''assigned'')"

definition printStatusCell :: "string \<Rightarrow> booking \<Rightarrow> string" where
  "printStatusCell type b =
     (if type = ''location''
      then escapeHtml (if truthy (b_status b) then the (b_status b) else ''assigned'')
      else if type = ''volunteer''
      then escapeHtml (if truthy (b_status b) then the (b_status b) else [])
      else escapeHtml (if truthy (b_status b) then the (b_status b) else []))"


section \<open>Notions of the specification\<close>

text \<open>
  The specification counts the active bookings of a cell: those whose status is
  \<open>assigned\<close> or \<open>checked-in\<close>. The source has no such function; the status of a
  booking is read the way the CSV export reads it, \<open>b.status || 'assigned'\<close>.
\<close>

definition spec_isActive :: "booking \<Rightarrow> bool" where
  "spec_isActive b = (exportStatus b = ''assigned'' \<or> exportStatus b = ''checked-in'')"

definition spec_activeCount :: "booking list \<Rightarrow> string \<Rightarrow> string \<Rightarrow> string option \<Rightarrow> nat" where
  "spec_activeCount allB lid d s = length (filter spec_isActive (getBookingsFor allB lid d s))"





text \<open>
  The administrator's volunteer list counts the shifts of a volunteer record with the
  heuristic of \<open>countShiftsForVolunteer\<close> (admin-volunteers.js); it is what the source
  itself takes for "a booking of this volunteer".
\<close>

definition bookingOfVolunteer :: "volunteer \<Rightarrow> booking \<Rightarrow> bool" where
  "bookingOfVolunteer vol b =
     (let name = trim (case v_name vol of None \<Rightarrow> [] | Some n \<Rightarrow> n);
          email = toLowerCase (trim (case v_email vol of None \<Rightarrow> [] | Some e \<Rightarrow> e))
      in if truthy (b_displayName b) \<and> trim (the (b_displayName b)) = name then True
         else if truthy (b_username b) \<and> toLowerCase (the (b_username b)) = email \<and> email \<noteq> []
              then True
         else if truthy (b_username b) \<and> trim (the (b_username b)) = name then True
         else False)"

text \<open>
  The four strategies the specification names for resolving the hours of a booking, each
  yielding a result or nothing, and the rule "the first that yields a result, else 0-0".
\<close>

definition explicitHours :: "booking \<Rightarrow> (int \<times> int) option" where
  "explicitHours b =
     (case (b_startHour b, b_endHour b) of (Some s, Some e) \<Rightarrow> Some (s, e) | _ \<Rightarrow> None)"

definition catalogHours :: "schedules \<Rightarrow> booking \<Rightarrow> (int \<times> int) option" where
  "catalogHours sch b =
     map_option slotRange
       (find (\<lambda>s. s_id s = b_slotId b) (getSlotsForLocation sch (b_locationId b)))"

definition labelHours :: "booking \<Rightarrow> (int \<times> int) option" where
  "labelHours b =
     map_option (\<lambda>(m1, m2, m3, m4).
                   ((if isPM m2 \<and> digitsToInt m1 < 12 then digitsToInt m1 + 12 else digitsToInt m1),
                    (if isPM m4 \<and> digitsToInt m3 < 12 then digitsToInt m3 + 12 else digitsToInt m3)))
       (firstMatch matchLabelAt
          (if truthy (b_slotLabel b) then the (b_slotLabel b)
           else if truthy (b_slotId b) then the (b_slotId b) else []))"

definition idHours :: "booking \<Rightarrow> (int \<times> int) option" where
  "idHours b =
     map_option (\<lambda>(n1, n2). (digitsToInt n1, digitsToInt n2))
       (firstMatch matchIdAt (if truthy (b_slotId b) then the (b_slotId b) else []))"

fun firstResolved :: "(int \<times> int) option list \<Rightarrow> int \<times> int" where
  "firstResolved [] = (0, 0)"
| "firstResolved (Some r # rest) = r"
| "firstResolved (None # rest) = firstResolved rest"

text \<open>
  The TimeSlot invariant, in the specification's words: \<open>startHour < endHour\<close>, both
  within \<open>[0, 24]\<close>, and \<open>minVolunteers \<le> maxVolunteers\<close> when \<open>maxVolunteers > 0\<close>.
\<close>

definition spec_validTimeSlot :: "slot \<Rightarrow> bool" where
  "spec_validTimeSlot s =
     (case (s_startHour s, s_endHour s) of
        (Some a, Some b) \<Rightarrow>
          a < b \<and> 0 \<le> a \<and> a \<le> 24 \<and> 0 \<le> b \<and> b \<le> 24 \<and>
          (orZero (s_maxVol s) > 0 \<longrightarrow> orZero (s_minVol s) \<le> orZero (s_maxVol s))
      | _ \<Rightarrow> False)"


section \<open>Scenario data\<close>

definition hallA :: location where
  "hallA = \<lparr>l_id = ''hall-a'', l_name = ''Hall A'', slotCapacity = Some 2\<rparr>"

definition hallB :: location where
  "hallB = \<lparr>l_id = ''hall-b'', l_name = ''Hall B'', slotCapacity = Some 2\<rparr>"

definition vol1 :: volunteer where
  "vol1 = \<lparr>v_id = Some ''vol-1'', v_name = Some ''V One'', v_email = Some ''v1@example.com'',
            v_username = None, v_role = None\<rparr>"

definition slot_6_8 :: slot where
  "slot_6_8 = mkSlot ''6-8am'' ''6:00 AM - 8:00 AM'' 6 8 1 4"

definition slot_7_9 :: slot where
  "slot_7_9 = mkSlot ''7-9am'' ''7:00 AM - 9:00 AM'' 7 9 1 4"

definition slot_8_10 :: slot where
  "slot_8_10 = mkSlot ''8-10am'' ''8:00 AM - 10:00 AM'' 8 10 1 4"

definition bookingA :: booking where
  \<comment> \<open>V1 assigned to Hall A, 06:00-08:00 on 2025-01-10, through the admin grid.\<close>
  "bookingA = makeBooking ''bk-1'' 1000 vol1 hallA (slotMapEntry slot_6_8) ''2025-01-10''"

definition usrV :: user where
  "usrV = \<lparr>u_username = Some ''v1@example.com'', u_displayName = Some ''V One'', u_role = Some ''volunteer''\<rparr>"

definition slot_14_16 :: slot where
  "slot_14_16 = mkSlot ''2-4pm'' ''2:00 PM - 4:00 PM'' 14 16 1 4"

definition utcClock :: "string \<Rightarrow> int \<Rightarrow> int option" where
  \<comment> \<open>The clock of a browser in UTC, for the two dates of the scenarios: 2025-01-10
      begins at 1736467200000, and an hour is 3600000 ms on every day.\<close>
  "utcClock d h =
     (if d = ''2025-01-10'' then Some (1736467200000 + h * 3600000)
      else if d = ''2025-01-11'' then Some (1736553600000 + h * 3600000)
      else None)"

definition adjacentCalls :: "booking list \<Rightarrow> (booking \<times> booking) list" where
  \<comment> \<open>An engine that compares each element with its predecessor.\<close>
  "adjacentCalls xs = zip (tl xs) xs"

definition bookingV :: booking where
  "bookingV = volunteerBooking ''bk-2'' 2000 usrV hallA ''2025-01-10'' slot_14_16"

definition pritilExit :: location where
  "pritilExit = \<lparr>l_id = ''pritil-exit'', l_name = ''Pritil Exit'', slotCapacity = Some 1\<rparr>"

definition vol2 :: volunteer where
  "vol2 = \<lparr>v_id = Some ''vol-2'', v_name = Some ''V Two'', v_email = Some ''v2@example.com'',
            v_username = None, v_role = None\<rparr>"

definition usrV2 :: user where
  "usrV2 = \<lparr>u_username = Some ''v2@example.com'', u_displayName = Some ''V Two'', u_role = Some ''volunteer''\<rparr>"


definition backwardsSlot :: slot where
  "backwardsSlot = mkSlot ''late'' ''Backwards'' 10 5 1 4"

definition offClockSlot :: slot where
  "offClockSlot = mkSlot ''off'' ''Off the clock'' 30 40 1 4"


definition withGlobalSlot :: schedules where
  "withGlobalSlot = snd (addGlobalSlot initialSchedules ''g-new'' ''8:00 PM - 10:00 PM'' 20 22 1 4)"


definition legacySlot :: slot where
  "legacySlot = mkSlot ''morning-b'' ''9:00 AM - 11:00 AM'' 9 11 1 4"

definition legacyBooking :: booking where
  "legacyBooking = volunteerBooking ''bk-9'' 9000 usrV hallA ''2025-01-10'' legacySlot"

definition editedSchedules :: schedules where
  "editedSchedules =
     setSlotsForLocation initialSchedules (\<lambda>i. ''slot-new'') ''hall-a''
       [mkSlot ''6-8am'' ''7:00 AM - 9:00 AM'' 7 9 1 4]"

definition selfBooked_6_8 :: booking where
  \<comment> \<open>V1, signed in, books Hall A 06:00-08:00 on 2025-01-10 for themselves.\<close>
  "selfBooked_6_8 = volunteerBooking ''bk-3'' 3000 usrV hallA ''2025-01-10'' slot_6_8"

definition slot_10_12 :: slot where
  "slot_10_12 = mkSlot ''10-12pm'' ''10:00 AM - 12:00 PM'' 10 12 1 4"

definition bookingOther :: booking where
  \<comment> \<open>V2 assigned to Hall A, 06:00-08:00 on 2025-01-10.\<close>
  "bookingOther = makeBooking ''bk-10'' 100 vol2 hallA (slotMapEntry slot_6_8) ''2025-01-10''"

definition bookingNextDay :: booking where
  \<comment> \<open>V1 assigned to Hall A, 06:00-08:00 on the next day.\<close>
  "bookingNextDay = makeBooking ''bk-11'' 110 vol1 hallA (slotMapEntry slot_6_8) ''2025-01-11''"

definition bookingLate :: booking where
  \<comment> \<open>V1 assigned to Hall A, 10:00-12:00 on 2025-01-10.\<close>
  "bookingLate = makeBooking ''bk-12'' 120 vol1 hallA (slotMapEntry slot_10_12) ''2025-01-10''"

definition bookingB :: booking where
  \<comment> \<open>V1 assigned to Hall B, 08:00-10:00 on 2025-01-10.\<close>
  "bookingB = makeBooking ''bk-13'' 130 vol1 hallB (slotMapEntry slot_8_10) ''2025-01-10''"

definition hallAWithout_6_8 :: schedules where
  \<comment> \<open>The administrator has saved Hall A's slot list without the 6-8am slot.\<close>
  "hallAWithout_6_8 =
     setSlotsForLocation initialSchedules (\<lambda>i. ''slot-new'') ''hall-a'' [slot_8_10, slot_10_12]"

definition sideDoor :: location where
  \<comment> \<open>A location saved from the form with the capacity 1.5.\<close>
  "sideDoor = \<lparr>l_id = ''side-door'', l_name = ''Side Door'', slotCapacity = Some (3 / 2)\<rparr>"

definition gridBooking :: booking where
  "gridBooking = makeBooking ''bk-8'' 8000 vol1 hallA slot_6_8 ''2025-01-10''"


section \<open>Conflict detection\<close>

lemma conflictLoop_find:
  "conflictLoop sch r bs =
     map_option (\<lambda>b. (b, existingSlotOf sch b))
       (find (\<lambda>b. fst r < snd (slotRange (existingSlotOf sch b)) \<and>
                   fst (slotRange (existingSlotOf sch b)) < snd r) bs)"
  by (induction bs) (simp_all add: Let_def rangesOverlap_def)

lemma matchesVolunteerOnDate_status [simp]:
  "matchesVolunteerOnDate v d (b\<lparr>b_status := x\<rparr>) = matchesVolunteerOnDate v d b"
  by (auto simp add: matchesVolunteerOnDate_def Let_def)

lemma existingSlotOf_status [simp]:
  "existingSlotOf sch (b\<lparr>b_status := x\<rparr>) = existingSlotOf sch b"
  by (simp add: existingSlotOf_def split: option.splits)

subsection \<open>C4: first overlapping booking, half-open intervals\<close>

lemma find_filter_conj: "find P (filter Q xs) = find (\<lambda>x. Q x \<and> P x) xs"
  by (induction xs) auto

lemma matchesVolunteerOnDate_keys:
  "matchesVolunteerOnDate ident d b \<longleftrightarrow>
     b_date b = d \<and>
     (\<exists>v. ident = Some v \<and> v \<noteq> [] \<and>
        ((\<exists>u. b_username b = Some u \<and> u \<noteq> [] \<and> toLowerCase u = toLowerCase v) \<or>
         (\<exists>n. b_displayName b = Some n \<and> n \<noteq> [] \<and> toLowerCase n = toLowerCase v) \<or>
         b_volunteerId b = Some v))"
  by (cases ident; cases "b_username b"; cases "b_displayName b"; cases "b_volunteerId b")
     (auto simp: matchesVolunteerOnDate_def truthy_def Let_def)

lemma existingSlotOf_overlap:
  "(cs < snd (slotRange (existingSlotOf sch b)) \<and> fst (slotRange (existingSlotOf sch b)) < ce) =
     (case find (\<lambda>s. s_id s = b_slotId b) (getSlotsForLocation sch (b_locationId b)) of
        Some s \<Rightarrow> cs < orZero (s_endHour s) \<and> orZero (s_startHour s) < ce
      | None \<Rightarrow> cs < orZero (b_endHour b) \<and> orZero (b_startHour b) < ce)"
  by (simp add: existingSlotOf_def slotRange_def orZero_def split: option.splits)

text \<open>
  C4, amended. The detector is given an identifier of the volunteer. It considers the
  persisted bookings whose date is the candidate's date and one of whose identity keys
  equals the identifier: the username or the display name, compared without regard to
  case, or the volunteer id, compared exactly. The interval \<open>[os, oe)\<close> of such a booking
  is that of the slot with the booking's slot id in the catalog of the booking's
  location, and the hours stored on the booking (a missing hour read as 0) when the
  catalog has no such slot. With the candidate's interval \<open>[cs, ce)\<close>, the detector
  returns the first considered booking, in persisted order, with \<open>cs < oe\<close> and
  \<open>os < ce\<close>, together with the slot object that gave its interval, and reports no
  conflict exactly when there is none. A booking of the volunteer that carries none of
  the keys is not considered.
\<close>

theorem detectConflictFor_first_overlap:
  "detectConflictFor sch allB ident d cand =
     map_option (\<lambda>b. (b, existingSlotOf sch b))
       (find (\<lambda>b.
            (b_date b = d \<and>
             (\<exists>v. ident = Some v \<and> v \<noteq> [] \<and>
                ((\<exists>u. b_username b = Some u \<and> u \<noteq> [] \<and> toLowerCase u = toLowerCase v) \<or>
                 (\<exists>n. b_displayName b = Some n \<and> n \<noteq> [] \<and> toLowerCase n = toLowerCase v) \<or>
                 b_volunteerId b = Some v))) \<and>
            (case find (\<lambda>s. s_id s = b_slotId b) (getSlotsForLocation sch (b_locationId b)) of
               Some s \<Rightarrow> orZero (s_startHour cand) < orZero (s_endHour s) \<and>
                         orZero (s_startHour s) < orZero (s_endHour cand)
             | None \<Rightarrow> orZero (s_startHour cand) < orZero (b_endHour b) \<and>
                       orZero (b_startHour b) < orZero (s_endHour cand)))
          allB)"
proof -
  have "detectConflictFor sch allB ident d cand =
     map_option (\<lambda>b. (b, existingSlotOf sch b))
       (find (\<lambda>b. matchesVolunteerOnDate ident d b \<and>
                   (orZero (s_startHour cand) < snd (slotRange (existingSlotOf sch b)) \<and>
                    fst (slotRange (existingSlotOf sch b)) < orZero (s_endHour cand))) allB)"
    by (simp add: detectConflictFor_def getAssignmentsForVolunteerOnDate_def conflictLoop_find
          find_filter_conj slotRange_def [of cand])
  then show ?thesis
    by (simp only: matchesVolunteerOnDate_keys existingSlotOf_overlap)
qed

text \<open>
  The persisted list holds, in this order, a booking of V2 for 06:00-08:00, and bookings
  of V1 for 06:00-08:00 on the next day, for 10:00-12:00, for 06:00-08:00 at Hall A and
  for 08:00-10:00 at Hall B. For the candidate 07:00-09:00 of V1 on 2025-01-10 the first
  three are passed over and the fourth is returned, although the fifth overlaps too; with
  the last two exchanged the other one is returned. Against the booking for 06:00-08:00
  the candidate 08:00-10:00 does not conflict.
\<close>

theorem detectConflictFor_scenario:
  "map_option fst
     (detectConflictFor initialSchedules
        [bookingOther, bookingNextDay, bookingLate, bookingA, bookingB]
        (v_id vol1) ''2025-01-10'' (slotMapEntry slot_7_9)) = Some bookingA \<and>
   map_option fst
     (detectConflictFor initialSchedules
        [bookingOther, bookingNextDay, bookingLate, bookingB, bookingA]
        (v_id vol1) ''2025-01-10'' (slotMapEntry slot_7_9)) = Some bookingB \<and>
   bookingA \<noteq> bookingB \<and>
   detectConflictFor initialSchedules [bookingOther, bookingNextDay, bookingLate]
       (v_id vol1) ''2025-01-10'' (slotMapEntry slot_7_9) = None \<and>
   detectConflictFor initialSchedules [bookingA] (v_id vol1) ''2025-01-10''
       (slotMapEntry slot_8_10) = None"
  unfolding detectConflictFor_first_overlap
  by (simp add: bookingA_def bookingB_def bookingOther_def bookingNextDay_def bookingLate_def
        makeBooking_def vol1_def vol2_def hallA_def hallB_def slotMapEntry_def slot_6_8_def
        slot_7_9_def slot_8_10_def slot_10_12_def mkSlot_def truthy_def
        toLowerCase_def toLowerChar_def getSlotsForLocation_def
        initialSchedules_def DEFAULT_SLOTS_def orZero_def)

text \<open>
  C4 as stated fails. V1 has booked Hall A 06:00-08:00 on 2025-01-10 for themselves; by
  the heuristic of the volunteer list it is a booking of V1. The grid hands the detector
  V1's id, the booking carries the username and the display name of the session and no
  volunteer id, so for the candidate 07:00-09:00 on that date no conflict is reported,
  and a drop of V1 onto the 6-8am cell of Hall B is accepted without the warning.
\<close>

theorem self_service_booking_not_detected_counterexample:
  "bookingOfVolunteer vol1 selfBooked_6_8 \<and>
   b_date selfBooked_6_8 = ''2025-01-10'' \<and>
   slotRange (existingSlotOf initialSchedules selfBooked_6_8) = (6, 8) \<and>
   slotRange (slotMapEntry slot_7_9) = (7, 9) \<and>
   rangesOverlap 7 9 6 8 \<and>
   volIdentifier vol1 = Some ''vol-1'' \<and>
   detectConflictFor initialSchedules [selfBooked_6_8] (volIdentifier vol1) ''2025-01-10''
       (slotMapEntry slot_7_9) = None \<and>
   assignOnDrop initialSchedules [hallA, hallB] [selfBooked_6_8] (Some vol1) hallB ''6-8am''
       ''2025-01-10'' False ''bk-5'' 5000
     = (Assigned, [selfBooked_6_8,
                   makeBooking ''bk-5'' 5000 vol1 hallB (slotMapEntry slot_6_8) ''2025-01-10''])"
  by (simp add: bookingOfVolunteer_def selfBooked_6_8_def volunteerBooking_def usrV_def vol1_def
        hallA_def hallB_def slot_6_8_def slot_7_9_def mkSlot_def slotMapEntry_def truthy_def
        trim_def isSpace_def toLowerCase_def toLowerChar_def existingSlotOf_def slotRange_def
        getSlotsForLocation_def initialSchedules_def DEFAULT_SLOTS_def orZero_def
        rangesOverlap_def volIdentifier_def detectConflictFor_def
        getAssignmentsForVolunteerOnDate_def matchesVolunteerOnDate_def assignOnDrop_def
        slotMapOf_def addAssignment_def makeBooking_def Let_def)

text \<open>
  In particular no conflict is reported exactly when no booking of the volunteer on the
  date overlaps the candidate.
\<close>

lemma detectConflictFor_None_iff:
  "detectConflictFor sch allB vol d newSlot = None \<longleftrightarrow>
     (\<forall>b \<in> set allB. matchesVolunteerOnDate vol d b \<longrightarrow>
        \<not> (fst (slotRange newSlot) < snd (slotRange (existingSlotOf sch b)) \<and>
           fst (slotRange (existingSlotOf sch b)) < snd (slotRange newSlot)))"
  by (auto simp: detectConflictFor_def getAssignmentsForVolunteerOnDate_def conflictLoop_find
        find_None_iff)

subsection \<open>C5: the detector does not read the status\<close>

text \<open>
  C5 as stated fails: a booking marked no-show still produces a conflict.
\<close>

theorem detectConflictFor_no_show_counterexample:
  "b_status (bookingA\<lparr>b_status := Some ''no-show''\<rparr>) = Some ''no-show'' \<and>
   map_option fst (detectConflictFor initialSchedules [bookingA\<lparr>b_status := Some ''no-show''\<rparr>]
       (v_id vol1) ''2025-01-10'' (slotMapEntry slot_7_9))
     = Some (bookingA\<lparr>b_status := Some ''no-show''\<rparr>)"
  by (simp add: detectConflictFor_def getAssignmentsForVolunteerOnDate_def
        bookingA_def makeBooking_def vol1_def hallA_def slotMapEntry_def slot_6_8_def
        slot_7_9_def mkSlot_def matchesVolunteerOnDate_def truthy_def
        toLowerCase_def toLowerChar_def existingSlotOf_def getSlotsForLocation_def
        initialSchedules_def DEFAULT_SLOTS_def orZero_def slotRange_def rangesOverlap_def)

lemma conflictLoop_status:
  "conflictLoop sch r (map (\<lambda>b. b\<lparr>b_status := f b\<rparr>) bs) =
     map_option (\<lambda>(b, s). (b\<lparr>b_status := f b\<rparr>, s)) (conflictLoop sch r bs)"
  by (induction bs) (simp_all add: Let_def)

text \<open>
  C5, amended. The detector considers every booking of the volunteer on the date,
  whatever its status: rewriting the statuses of the persisted bookings in any way
  changes neither whether a conflict is reported nor which booking is reported.
\<close>

theorem detectConflictFor_ignores_status:
  "detectConflictFor sch (map (\<lambda>b. b\<lparr>b_status := f b\<rparr>) allB) vol d newSlot =
     map_option (\<lambda>(b, s). (b\<lparr>b_status := f b\<rparr>, s)) (detectConflictFor sch allB vol d newSlot)"
  by (simp add: detectConflictFor_def getAssignmentsForVolunteerOnDate_def filter_map o_def
        conflictLoop_status)


section \<open>Capacity\<close>



lemma find_l_id: "find (\<lambda>l. l_id l = lid) locs = Some loc \<Longrightarrow> l_id loc = lid"
  by (auto simp: find_Some_iff)












section \<open>Self-service cancellation\<close>

text \<open>
  The Cancel button of a booked slot card compares with the start of the card's slot:
  when that start is \<open>start\<close>, it removes the booking exactly when \<open>start - now\<close> is at
  least 30 minutes (1800000 ms) and answers "Too late to cancel" otherwise.
\<close>

lemma cancelFromLocationModal_iff_30_minutes:
  assumes "slotStartDateTime localTime dateStr ts = Some start"
      and "find (\<lambda>item. b_username item = u_username usr \<and> b_locationId item = l_id loc \<and>
                         b_date item = dateStr \<and> b_slotId item = s_id ts) allB = Some b"
  shows "cancelFromLocationModal allB localTime now usr loc dateStr ts =
           (if 30 * 60 * 1000 \<le> start - now then (Done, removeBookingById allB (b_id b))
            else (TooLateToCancel, allB))"
  using assms by (auto simp: cancelFromLocationModal_def tooLate_def)

lemma sortThrows_short: "length xs < 2 \<Longrightarrow> \<not> sortThrows calls xs"
  by (simp add: sortThrows_def)

lemma sortThrows_with_slot_ids: "\<forall>a \<in> set xs. b_slotId a \<noteq> None \<Longrightarrow> \<not> sortThrows calls xs"
  by (auto simp: sortThrows_def comparatorThrows_def list_ex_iff)

text \<open>
  The Cancel button of My Assignments, clicked at or after the time the list was drawn,
  does the same when the catalog of the booking's location has a slot with the booking's
  slot id: it compares with the start of that slot.
\<close>

lemma cancelFromMyAssignments_iff_30_minutes:
  assumes "\<not> sortThrows calls (getUserBookings renderB (u_username u))"
      and "bk \<in> set (getUserBookings renderB (u_username u))"
      and "find (\<lambda>s. s_id s = b_slotId bk) (getSlotsForLocation sch (b_locationId bk)) = Some s"
      and "slotStartDateTime localTime (b_date bk) s = Some start"
      and "renderNow \<le> now"
  shows "cancelFromMyAssignments calls renderB allB sch localTime (Some u) renderNow now bk =
           (if 30 * 60 * 1000 \<le> start - now then (Done, removeBookingById allB (b_id bk))
            else if renderNow \<le> start then (TooLateToCancel, allB)
            else (CancelNotOffered, allB))"
  using assms by (auto simp: cancelFromMyAssignments_def slotForAssignment_def tooLate_def Let_def)

text \<open>
  The scenario of the specification, in a browser in UTC: V1 has booked the slot that
  starts at 14:00 on 2025-01-10. At 13:35 both buttons answer "Too late to cancel"; at
  13:25 both remove the booking, and so does the button of the slot card at 13:30.
\<close>

lemma cancellation_boundary_scenario:
  "cancelFromLocationModal [bookingV] utcClock 1736516100000 usrV hallA ''2025-01-10'' slot_14_16
     = (TooLateToCancel, [bookingV]) \<and>
   cancelFromLocationModal [bookingV] utcClock 1736515500000 usrV hallA ''2025-01-10'' slot_14_16
     = (Done, []) \<and>
   cancelFromLocationModal [bookingV] utcClock 1736515800000 usrV hallA ''2025-01-10'' slot_14_16
     = (Done, []) \<and>
   (\<forall>calls. cancelFromMyAssignments calls [bookingV] [bookingV] initialSchedules utcClock (Some usrV)
      1736500000000 1736516100000 bookingV = (TooLateToCancel, [bookingV])) \<and>
   (\<forall>calls. cancelFromMyAssignments calls [bookingV] [bookingV] initialSchedules utcClock (Some usrV)
      1736500000000 1736515500000 bookingV = (Done, []))"
proof -
  have start: "slotStartDateTime utcClock ''2025-01-10'' slot_14_16 = Some 1736517600000"
    by (simp add: slotStartDateTime_def utcClock_def slot_14_16_def mkSlot_def)
  have found: "find (\<lambda>item. b_username item = u_username usrV \<and> b_locationId item = l_id hallA \<and>
                     b_date item = ''2025-01-10'' \<and> b_slotId item = s_id slot_14_16) [bookingV] = Some bookingV"
    by (simp add: bookingV_def volunteerBooking_def)
  have mine: "getUserBookings [bookingV] (u_username usrV) = [bookingV]"
    by (simp add: getUserBookings_def bookingV_def volunteerBooking_def usrV_def truthy_def)
  have quiet: "\<not> sortThrows calls (getUserBookings [bookingV] (u_username usrV))" for calls
    unfolding mine by (rule sortThrows_short) simp
  have listed: "bookingV \<in> set (getUserBookings [bookingV] (u_username usrV))"
    unfolding mine by simp
  have slot: "find (\<lambda>s. s_id s = b_slotId bookingV)
                (getSlotsForLocation initialSchedules (b_locationId bookingV)) = Some slot_14_16"
    by (simp add: bookingV_def volunteerBooking_def getSlotsForLocation_def
          initialSchedules_def DEFAULT_SLOTS_def slot_14_16_def mkSlot_def hallA_def)
  have date: "b_date bookingV = ''2025-01-10''"
    by (simp add: bookingV_def volunteerBooking_def)
  have start': "slotStartDateTime utcClock (b_date bookingV) slot_14_16 = Some 1736517600000"
    using start date by simp
  note a = cancelFromLocationModal_iff_30_minutes [OF start found]
  note b = cancelFromMyAssignments_iff_30_minutes [OF quiet listed slot start']
  have r: "removeBookingById [bookingV] (b_id bookingV) = []"
    by (simp add: removeBookingById_def)
  show ?thesis
    by (simp add: a b r)
qed

text \<open>
  C3. The specification lets the owning volunteer cancel exactly when the start of the
  slot is at least 30 minutes away. My Assignments does not do so for a booking whose
  slot id is not in the catalog of its location: it takes 00:00 of the booking's date as
  the start, where the slot card takes the start of its slot.

  V1 was assigned to Hall A for 06:00-08:00 on 2025-01-10 through the admin grid; the
  booking stores the hours and no slot id. At 23:50 of the day before, 6 hours and 10
  minutes ahead of the slot, the Cancel button of My Assignments answers "Too late to
  cancel", and a list drawn at 05:00, an hour ahead of the slot, has no Cancel button for
  the booking. The same holds for the booking V1 has made for that slot themselves, once the
  administrator has saved Hall A's slot list without the slot; with the slot in the
  catalog the same click removes the booking, and so does the Cancel button of the slot
  card.
\<close>

theorem my_assignments_cancel_measures_from_midnight:
  "b_startHour bookingA = Some 6 \<and>
   utcClock (b_date bookingA) 6 = Some 1736488800000 \<and>
   (30 * 60 * 1000 :: int) \<le> 1736488800000 - 1736466600000 \<and>
   (\<forall>calls. cancelFromMyAssignments calls [bookingA] [bookingA] initialSchedules utcClock (Some usrV)
      1736466600000 1736466600000 bookingA = (TooLateToCancel, [bookingA])) \<and>
   (30 * 60 * 1000 :: int) \<le> 1736488800000 - 1736485200000 \<and>
   (\<forall>calls. cancelFromMyAssignments calls [bookingA] [bookingA] initialSchedules utcClock (Some usrV)
      1736485200000 1736485200000 bookingA = (CancelNotOffered, [bookingA])) \<and>
   slotStartDateTime utcClock (b_date selfBooked_6_8) slot_6_8 = Some 1736488800000 \<and>
   (\<forall>calls. cancelFromMyAssignments calls [selfBooked_6_8] [selfBooked_6_8] hallAWithout_6_8 utcClock
      (Some usrV) 1736466600000 1736466600000 selfBooked_6_8 = (TooLateToCancel, [selfBooked_6_8])) \<and>
   (\<forall>calls. cancelFromMyAssignments calls [selfBooked_6_8] [selfBooked_6_8] initialSchedules utcClock
      (Some usrV) 1736466600000 1736466600000 selfBooked_6_8 = (Done, [])) \<and>
   cancelFromLocationModal [selfBooked_6_8] utcClock 1736466600000 usrV hallA ''2025-01-10'' slot_6_8
     = (Done, [])"
proof (intro conjI allI)
  show "b_startHour bookingA = Some 6"
    by (simp add: bookingA_def makeBooking_def slotMapEntry_def slot_6_8_def mkSlot_def)
  show "utcClock (b_date bookingA) 6 = Some 1736488800000"
    by (simp add: bookingA_def makeBooking_def utcClock_def)
  show "(30 * 60 * 1000 :: int) \<le> 1736488800000 - 1736466600000"
    by simp
  show "(30 * 60 * 1000 :: int) \<le> 1736488800000 - 1736485200000"
    by simp
  show "slotStartDateTime utcClock (b_date selfBooked_6_8) slot_6_8 = Some 1736488800000"
    by (simp add: slotStartDateTime_def utcClock_def selfBooked_6_8_def volunteerBooking_def
          slot_6_8_def mkSlot_def)
next
  fix calls
  show "cancelFromMyAssignments calls [bookingA] [bookingA] initialSchedules utcClock (Some usrV)
      1736466600000 1736466600000 bookingA = (TooLateToCancel, [bookingA])"
    by (simp add: cancelFromMyAssignments_def getUserBookings_def sortThrows_def
          slotForAssignment_def getSlotsForLocation_def initialSchedules_def DEFAULT_SLOTS_def
          bookingA_def makeBooking_def vol1_def usrV_def hallA_def slotMapEntry_def slot_6_8_def
          mkSlot_def tooLate_def slotStartDateTime_def utcClock_def truthy_def Let_def)
next
  fix calls
  show "cancelFromMyAssignments calls [bookingA] [bookingA] initialSchedules utcClock (Some usrV)
      1736485200000 1736485200000 bookingA = (CancelNotOffered, [bookingA])"
    by (simp add: cancelFromMyAssignments_def getUserBookings_def sortThrows_def
          slotForAssignment_def getSlotsForLocation_def initialSchedules_def DEFAULT_SLOTS_def
          bookingA_def makeBooking_def vol1_def usrV_def hallA_def slotMapEntry_def slot_6_8_def
          mkSlot_def tooLate_def slotStartDateTime_def utcClock_def truthy_def Let_def)
next
  fix calls
  show "cancelFromMyAssignments calls [selfBooked_6_8] [selfBooked_6_8] hallAWithout_6_8 utcClock
      (Some usrV) 1736466600000 1736466600000 selfBooked_6_8 = (TooLateToCancel, [selfBooked_6_8])"
    by (simp add: cancelFromMyAssignments_def getUserBookings_def sortThrows_def
          slotForAssignment_def getSlotsForLocation_def hallAWithout_6_8_def
          setSlotsForLocation_def normalizeSlot_def initialSchedules_def
          selfBooked_6_8_def volunteerBooking_def usrV_def hallA_def slot_6_8_def slot_8_10_def
          slot_10_12_def mkSlot_def tooLate_def slotStartDateTime_def utcClock_def truthy_def
          isSpace_def trim_def orZero_def Let_def)
next
  fix calls
  show "cancelFromMyAssignments calls [selfBooked_6_8] [selfBooked_6_8] initialSchedules utcClock
      (Some usrV) 1736466600000 1736466600000 selfBooked_6_8 = (Done, [])"
    by (simp add: cancelFromMyAssignments_def getUserBookings_def sortThrows_def
          slotForAssignment_def getSlotsForLocation_def initialSchedules_def DEFAULT_SLOTS_def
          selfBooked_6_8_def volunteerBooking_def usrV_def hallA_def slot_6_8_def
          mkSlot_def tooLate_def slotStartDateTime_def utcClock_def truthy_def
          removeBookingById_def Let_def)
next
  show "cancelFromLocationModal [selfBooked_6_8] utcClock 1736466600000 usrV hallA ''2025-01-10'' slot_6_8
     = (Done, [])"
    by (simp add: cancelFromLocationModal_def selfBooked_6_8_def volunteerBooking_def usrV_def
          hallA_def slot_6_8_def mkSlot_def tooLate_def slotStartDateTime_def utcClock_def
          removeBookingById_def)
qed

text \<open>
  C2, amended. A successful cancellation by the owning volunteer deletes the booking:
  the new persisted list is the old one without the records carrying the booking's id,
  the same filter the administrator's removal applies. No record is rewritten, so no
  status becomes \<open>cancelled\<close>.
\<close>

theorem self_cancel_removes_record:
  "(cancelFromLocationModal allB localTime now usr loc dateStr ts = (Done, allB') \<longrightarrow>
      (\<exists>b. find (\<lambda>item. b_username item = u_username usr \<and> b_locationId item = l_id loc \<and>
                          b_date item = dateStr \<and> b_slotId item = s_id ts) allB = Some b \<and>
           allB' = filter (\<lambda>x. b_id x \<noteq> b_id b) allB \<and> b \<notin> set allB')) \<and>
   (cancelFromMyAssignments calls renderB allB sch localTime usr' renderNow now bk = (Done, allB') \<longrightarrow>
      allB' = filter (\<lambda>x. b_id x \<noteq> b_id bk) allB \<and> bk \<notin> set allB')"
  by (auto simp: cancelFromLocationModal_def cancelFromMyAssignments_def removeBookingById_def
        Let_def split: option.splits if_splits)

theorem self_cancel_removes_record_witness:
  "cancelFromLocationModal [bookingOther, bookingV] utcClock 1736515500000 usrV hallA ''2025-01-10'' slot_14_16
     = (Done, [bookingOther]) \<and>
   cancelFromMyAssignments adjacentCalls [bookingOther, bookingV] [bookingOther, bookingV]
       initialSchedules utcClock (Some usrV) 1736500000000 1736515500000 bookingV
     = (Done, [bookingOther])"
proof -
  have a: "cancelFromLocationModal [bookingOther, bookingV] utcClock 1736515500000 usrV hallA
             ''2025-01-10'' slot_14_16 = (Done, removeBookingById [bookingOther, bookingV] ''bk-2'')"
    by (simp add: cancelFromLocationModal_def bookingOther_def bookingV_def makeBooking_def
          volunteerBooking_def usrV_def vol2_def hallA_def slot_14_16_def slot_6_8_def
          slotMapEntry_def mkSlot_def tooLate_def slotStartDateTime_def utcClock_def truthy_def)
  have b: "cancelFromMyAssignments adjacentCalls [bookingOther, bookingV] [bookingOther, bookingV]
             initialSchedules utcClock (Some usrV) 1736500000000 1736515500000 bookingV
           = (Done, removeBookingById [bookingOther, bookingV] ''bk-2'')"
    by (simp add: cancelFromMyAssignments_def getUserBookings_def sortThrows_def
          slotForAssignment_def getSlotsForLocation_def
          initialSchedules_def DEFAULT_SLOTS_def bookingOther_def bookingV_def makeBooking_def
          volunteerBooking_def usrV_def vol2_def hallA_def slot_14_16_def slot_6_8_def
          slotMapEntry_def mkSlot_def tooLate_def slotStartDateTime_def utcClock_def truthy_def
          toLowerCase_def toLowerChar_def Let_def)
  have r: "removeBookingById [bookingOther, bookingV] ''bk-2'' = [bookingOther]"
    by (simp add: removeBookingById_def bookingOther_def bookingV_def makeBooking_def
          volunteerBooking_def)
  from self_cancel_removes_record [THEN conjunct1, rule_format, OF a]
       self_cancel_removes_record [THEN conjunct2, rule_format, OF b]
  show ?thesis using a b r by simp
qed

text \<open>
  C2 as stated fails: after a successful cancellation the persisted list no longer holds
  the booking, with any status.
\<close>

theorem self_cancel_keeps_record_counterexample:
  "fst (cancelFromLocationModal [bookingV] utcClock 1736515500000 usrV hallA ''2025-01-10'' slot_14_16)
     = Done \<and>
   snd (cancelFromLocationModal [bookingV] utcClock 1736515500000 usrV hallA ''2025-01-10'' slot_14_16)
     = [] \<and>
   fst (cancelFromMyAssignments adjacentCalls [bookingV] [bookingV] initialSchedules utcClock
          (Some usrV) 1736500000000 1736515500000 bookingV)
     = Done \<and>
   snd (cancelFromMyAssignments adjacentCalls [bookingV] [bookingV] initialSchedules utcClock
          (Some usrV) 1736500000000 1736515500000 bookingV)
     = []"
  by (simp add: cancelFromLocationModal_def cancelFromMyAssignments_def getUserBookings_def
        sortThrows_def slotForAssignment_def
        getSlotsForLocation_def initialSchedules_def DEFAULT_SLOTS_def bookingV_def
        volunteerBooking_def usrV_def hallA_def slot_14_16_def removeBookingById_def
        mkSlot_def tooLate_def slotStartDateTime_def utcClock_def truthy_def Let_def)

section \<open>Booking the same slot twice\<close>



text \<open>
  The Book button of a slot card adds no second record either, when the card was drawn
  with the booking persisted; there the answer is "Full" when the cell was also full,
  since that check comes first.
\<close>

lemma bookFromLocationModal_no_duplicate:
  assumes "b \<in> set drawB" "b_username b = u_username u" "b_locationId b = locationId"
      "b_date b = d" "b_slotId b = s_id ts"
  shows "snd (bookFromLocationModal drawB allB locations (Some u) locationId d ts newId now) = allB \<and>
         fst (bookFromLocationModal drawB allB locations (Some u) locationId d ts newId now)
           \<in> {AlreadyBooked, SlotFull, LocationNotFound}"
proof (cases "find (\<lambda>l. l_id l = locationId) locations")
  case None
  then show ?thesis by (simp add: bookFromLocationModal_def)
next
  case (Some loc)
  then have "l_id loc = locationId" by (rule find_l_id)
  with assms have "userHasBookingForSlot drawB (u_username u) (l_id loc) d (s_id ts)"
    by (auto simp: userHasBookingForSlot_def list_ex_iff)
  with Some show ?thesis by (simp add: bookFromLocationModal_def)
qed

section \<open>Capacity: the invariant and the unguarded path\<close>




text \<open>
  The two conditions of the amended claim are needed. A capacity of 1.5, which the
  location form accepts, admits two self-service bookings; a slot card drawn before
  another volunteer's booking still books, so two cards of Pritil Exit drawn on the empty
  cell put two bookings into it; and a location stored without a capacity is never full.
\<close>

lemma fractional_capacity_admits_two:
  "slotCapacity sideDoor = Some (3 / 2) \<and>
   confirmBooking [] (Some usrV) (Some sideDoor) (Some ''2025-01-10'') (Some slot_6_8) ''bk-1'' 1000
     = (Done, [volunteerBooking ''bk-1'' 1000 usrV sideDoor ''2025-01-10'' slot_6_8]) \<and>
   confirmBooking [volunteerBooking ''bk-1'' 1000 usrV sideDoor ''2025-01-10'' slot_6_8]
       (Some usrV2) (Some sideDoor) (Some ''2025-01-10'') (Some slot_6_8) ''bk-2'' 2000
     = (Done, [volunteerBooking ''bk-1'' 1000 usrV sideDoor ''2025-01-10'' slot_6_8,
               volunteerBooking ''bk-2'' 2000 usrV2 sideDoor ''2025-01-10'' slot_6_8]) \<and>
   real (spec_activeCount
           [volunteerBooking ''bk-1'' 1000 usrV sideDoor ''2025-01-10'' slot_6_8,
            volunteerBooking ''bk-2'' 2000 usrV2 sideDoor ''2025-01-10'' slot_6_8]
           ''side-door'' ''2025-01-10'' (Some ''6-8am'')) > 3 / 2"
  by (simp add: confirmBooking_def truthy_def userHasBookingForSlot_def getBookingsFor_def
        isFull_def sideDoor_def addBooking_def volunteerBooking_def usrV_def usrV2_def
        spec_activeCount_def spec_isActive_def exportStatus_def slot_6_8_def mkSlot_def)

lemma stale_card_exceeds_capacity:
  "bookFromLocationModal [] [] [pritilExit] (Some usrV) ''pritil-exit'' ''2025-01-10'' slot_6_8
       ''bk-1'' 1000
     = (Done, [volunteerBooking ''bk-1'' 1000 usrV pritilExit ''2025-01-10'' slot_6_8]) \<and>
   bookFromLocationModal [] [volunteerBooking ''bk-1'' 1000 usrV pritilExit ''2025-01-10'' slot_6_8]
       [pritilExit] (Some usrV2) ''pritil-exit'' ''2025-01-10'' slot_6_8 ''bk-2'' 2000
     = (Done, [volunteerBooking ''bk-1'' 1000 usrV pritilExit ''2025-01-10'' slot_6_8,
               volunteerBooking ''bk-2'' 2000 usrV2 pritilExit ''2025-01-10'' slot_6_8]) \<and>
   spec_activeCount
     [volunteerBooking ''bk-1'' 1000 usrV pritilExit ''2025-01-10'' slot_6_8,
      volunteerBooking ''bk-2'' 2000 usrV2 pritilExit ''2025-01-10'' slot_6_8]
     ''pritil-exit'' ''2025-01-10'' (Some ''6-8am'') = 2"
  by (simp add: bookFromLocationModal_def truthy_def userHasBookingForSlot_def getBookingsFor_def
        isFull_def pritilExit_def addBooking_def volunteerBooking_def usrV_def usrV2_def
        spec_activeCount_def spec_isActive_def exportStatus_def slot_6_8_def mkSlot_def)

lemma missing_capacity_never_full:
  "slotCapacity loc = None \<Longrightarrow> \<not> isFull held loc"
  by (simp add: isFull_def)

section \<open>The slot catalog\<close>

lemma slotErrors_nonempty_iff:
  "slotErrors i s \<noteq> [] \<longleftrightarrow>
     \<not> truthy (s_label s) \<or> invalidHours (s_startHour s) (s_endHour s) \<or>
     ltZero (s_minVol s) \<or> ltZero (s_maxVol s) \<or> minExceedsMax (s_minVol s) (s_maxVol s)"
  by (simp add: slotErrors_def)

lemma concat_enumerate_nonempty:
  "s \<in> set xs \<Longrightarrow> (\<And>i. f i s \<noteq> []) \<Longrightarrow> concat (map (\<lambda>(i, s). f i s) (enumerate n xs)) \<noteq> []"
  by (induction xs arbitrary: n) auto

text \<open>
  C7, amended. The checks live in the slot editor, not in the catalog's mutation
  functions. The editor's Save handler rejects an edited list that holds a slot with an
  empty label, with \<open>startHour \<ge> endHour\<close>, with a negative minimum or maximum, or with
  a positive maximum below the minimum, and whenever it rejects, the stored catalog is
  unchanged. \<open>setSlotsForLocation\<close>, \<open>addSlotToLocation\<close>, \<open>removeSlotFromLocation\<close>
  and the reset store without checking.
\<close>

theorem saveSlots_validates:
  "(s \<in> set currentSlots \<and> s_label s = Some l \<and> s_startHour s = Some a \<and> s_endHour s = Some b \<and>
    s_minVol s = Some mn \<and> s_maxVol s = Some mx \<and>
    (l = [] \<or> a \<ge> b \<or> mn < 0 \<or> mx < 0 \<or> (0 < mx \<and> mx < mn)) \<longrightarrow>
      (\<exists>errs. errs \<noteq> [] \<and>
         saveSlots sch fresh locationId currentSlots = (ValidationErrors errs, sch))) \<and>
   (fst (saveSlots sch fresh locationId currentSlots) \<noteq> Saved \<longrightarrow>
      snd (saveSlots sch fresh locationId currentSlots) = sch)"
proof (intro conjI impI)
  assume h: "s \<in> set currentSlots \<and> s_label s = Some l \<and> s_startHour s = Some a \<and> s_endHour s = Some b \<and>
    s_minVol s = Some mn \<and> s_maxVol s = Some mx \<and>
    (l = [] \<or> a \<ge> b \<or> mn < 0 \<or> mx < 0 \<or> (0 < mx \<and> mx < mn))"
  then have "\<And>i. slotErrors i s \<noteq> []"
    unfolding slotErrors_nonempty_iff
    by (auto simp: truthy_def invalidHours_def ltZero_def minExceedsMax_def)
  with h have "concat (map (\<lambda>(i, s). slotErrors i s) (enumerate 0 currentSlots)) \<noteq> []"
    by (intro concat_enumerate_nonempty [of s]) auto
  then show "\<exists>errs. errs \<noteq> [] \<and>
         saveSlots sch fresh locationId currentSlots = (ValidationErrors errs, sch)"
    by (simp add: saveSlots_def Let_def)
next
  assume "fst (saveSlots sch fresh locationId currentSlots) \<noteq> Saved"
  then show "snd (saveSlots sch fresh locationId currentSlots) = sch"
    by (cases "concat (map (\<lambda>(i, s). slotErrors i s) (enumerate 0 currentSlots)) = []")
       (simp_all add: saveSlots_def Let_def)
qed

theorem saveSlots_validates_witness:
  "saveSlots initialSchedules (\<lambda>i. ''slot-new'') ''hall-a'' [slot_6_8, backwardsSlot]
     = (ValidationErrors [InvalidHours 2], initialSchedules) \<and>
   fst (saveSlots initialSchedules (\<lambda>i. ''slot-new'') ''hall-a'' [slot_6_8, slot_7_9]) = Saved \<and>
   getSlotsForLocation (snd (saveSlots initialSchedules (\<lambda>i. ''slot-new'') ''hall-a'' [slot_6_8, slot_7_9]))
       ''hall-a'' = [slot_6_8, slot_7_9]"
proof -
  have h: "backwardsSlot \<in> set [slot_6_8, backwardsSlot] \<and> s_label backwardsSlot = Some ''Backwards'' \<and>
      s_startHour backwardsSlot = Some 10 \<and> s_endHour backwardsSlot = Some 5 \<and>
      s_minVol backwardsSlot = Some 1 \<and> s_maxVol backwardsSlot = Some 4 \<and>
      (''Backwards'' = [] \<or> (10::int) \<ge> 5 \<or> (1::int) < 0 \<or> (4::int) < 0 \<or> ((0::int) < 4 \<and> (4::int) < 1))"
    by (simp add: backwardsSlot_def mkSlot_def)
  from saveSlots_validates [THEN conjunct1, rule_format, OF h]
  obtain errs where "saveSlots initialSchedules (\<lambda>i. ''slot-new'') ''hall-a'' [slot_6_8, backwardsSlot]
     = (ValidationErrors errs, initialSchedules)" by blast
  moreover have rejected:
    "fst (saveSlots initialSchedules (\<lambda>i. ''slot-new'') ''hall-a'' [slot_6_8, backwardsSlot])
       = ValidationErrors [InvalidHours 2]"
    by (simp add: saveSlots_def slotErrors_def slot_6_8_def backwardsSlot_def mkSlot_def truthy_def
          invalidHours_def ltZero_def minExceedsMax_def)
  ultimately have a: "saveSlots initialSchedules (\<lambda>i. ''slot-new'') ''hall-a'' [slot_6_8, backwardsSlot]
     = (ValidationErrors [InvalidHours 2], initialSchedules)" by simp
  have "fst (saveSlots initialSchedules (\<lambda>i. ''slot-new'') ''hall-a'' [slot_6_8, backwardsSlot]) \<noteq> Saved"
    using rejected by simp
  from saveSlots_validates [THEN conjunct2, rule_format, OF this]
  have unchanged: "snd (saveSlots initialSchedules (\<lambda>i. ''slot-new'') ''hall-a'' [slot_6_8, backwardsSlot])
                     = initialSchedules" .
  have b: "saveSlots initialSchedules (\<lambda>i. ''slot-new'') ''hall-a'' [slot_6_8, slot_7_9]
     = (Saved, setSlotsForLocation initialSchedules (\<lambda>i. ''slot-new'') ''hall-a'' [slot_6_8, slot_7_9])"
    by (simp add: saveSlots_def slotErrors_def slot_6_8_def slot_7_9_def mkSlot_def truthy_def
          invalidHours_def ltZero_def minExceedsMax_def normalizeSlot_def setSlotsForLocation_def
          isSpace_def trim_def orZero_def)
  have c: "getSlotsForLocation
             (setSlotsForLocation initialSchedules (\<lambda>i. ''slot-new'') ''hall-a'' [slot_6_8, slot_7_9])
             ''hall-a'' = [slot_6_8, slot_7_9]"
    by (simp add: slot_6_8_def slot_7_9_def mkSlot_def truthy_def
          normalizeSlot_def setSlotsForLocation_def getSlotsForLocation_def
          isSpace_def trim_def orZero_def)
  show ?thesis using a b c unchanged by simp
qed

text \<open>
  C7 as stated fails: \<open>setSlotsForLocation\<close> and \<open>addSlotToLocation\<close> store a slot that
  runs from 10 to 5, and the editor saves a slot that runs from 30 to 40.
\<close>

theorem catalog_mutations_store_invalid_slot_counterexample:
  "\<not> spec_validTimeSlot backwardsSlot \<and>
   custom initialSchedules ''hall-a'' = None \<and>
   custom (setSlotsForLocation initialSchedules (\<lambda>i. ''slot-new'') ''hall-a'' [backwardsSlot]) ''hall-a''
     = Some [backwardsSlot] \<and>
   custom (fst (addSlotToLocation initialSchedules ''slot-new'' ''hall-a'' backwardsSlot)) ''hall-a''
     = Some (DEFAULT_SLOTS @ [backwardsSlot]) \<and>
   \<not> spec_validTimeSlot offClockSlot \<and>
   fst (saveSlots initialSchedules (\<lambda>i. ''slot-new'') ''hall-a'' [offClockSlot]) = Saved \<and>
   custom (snd (saveSlots initialSchedules (\<lambda>i. ''slot-new'') ''hall-a'' [offClockSlot])) ''hall-a''
     = Some [offClockSlot]"
  by (simp add: spec_validTimeSlot_def backwardsSlot_def offClockSlot_def mkSlot_def
        initialSchedules_def setSlotsForLocation_def addSlotToLocation_def normalizeSlot_def
        getSlotsForLocation_def saveSlots_def slotErrors_def invalidHours_def ltZero_def
        minExceedsMax_def truthy_def isSpace_def trim_def orZero_def Let_def)

text \<open>
  C8, amended. For a location without a stored list (or with an empty one),
  \<open>getSlotsForLocation\<close> returns the current global default set, and so it does after a
  reset, which stores a copy of that set. The set is the seven two-hour slots from 06:00
  to 20:00 on a fresh page, and no mutation of a location's catalog changes it; Add
  global slot appends to it.
\<close>

theorem getSlotsForLocation_defaults:
  "((locationId = [] \<or> custom sch locationId = None \<or> custom sch locationId = Some []) \<longrightarrow>
      getSlotsForLocation sch locationId = defaults sch) \<and>
   getSlotsForLocation (resetToDefaults sch locationId) locationId = defaults sch \<and>
   defaults (resetToDefaults sch l) = defaults sch \<and>
   defaults (setSlotsForLocation sch fresh l xs) = defaults sch \<and>
   defaults (fst (addSlotToLocation sch uniq l x)) = defaults sch \<and>
   defaults (fst (removeSlotFromLocation sch l i)) = defaults sch \<and>
   defaults (snd (saveSlots sch fresh l xs)) = defaults sch \<and>
   (fst (addGlobalSlot sch uniq labelValue sH eH minV maxV) = [] \<longrightarrow>
      (\<exists>new. defaults (snd (addGlobalSlot sch uniq labelValue sH eH minV maxV))
                = defaults sch @ [new] \<and>
             s_startHour new = Some sH \<and> s_endHour new = Some eH)) \<and>
   defaults initialSchedules = DEFAULT_SLOTS \<and>
   map (\<lambda>s. (s_startHour s, s_endHour s)) DEFAULT_SLOTS =
     [(Some 6, Some 8), (Some 8, Some 10), (Some 10, Some 12), (Some 12, Some 14),
      (Some 14, Some 16), (Some 16, Some 18), (Some 18, Some 20)]"
proof (intro conjI impI)
  assume "locationId = [] \<or> custom sch locationId = None \<or> custom sch locationId = Some []"
  then show "getSlotsForLocation sch locationId = defaults sch"
    by (auto simp: getSlotsForLocation_def)
next
  show "getSlotsForLocation (resetToDefaults sch locationId) locationId = defaults sch"
    by (simp add: getSlotsForLocation_def resetToDefaults_def)
next
  show "defaults (resetToDefaults sch l) = defaults sch"
    by (simp add: resetToDefaults_def)
next
  show "defaults (setSlotsForLocation sch fresh l xs) = defaults sch"
    by (simp add: setSlotsForLocation_def)
next
  show "defaults (fst (addSlotToLocation sch uniq l x)) = defaults sch"
    by (simp add: addSlotToLocation_def Let_def)
next
  show "defaults (fst (removeSlotFromLocation sch l i)) = defaults sch"
    by (simp add: removeSlotFromLocation_def Let_def split: option.splits)
next
  show "defaults (snd (saveSlots sch fresh l xs)) = defaults sch"
    by (simp add: saveSlots_def Let_def setSlotsForLocation_def)
next
  assume "fst (addGlobalSlot sch uniq labelValue sH eH minV maxV) = []"
  then show "\<exists>new. defaults (snd (addGlobalSlot sch uniq labelValue sH eH minV maxV))
                = defaults sch @ [new] \<and>
             s_startHour new = Some sH \<and> s_endHour new = Some eH"
    by (auto simp: addGlobalSlot_def Let_def normalizeSlot_def orZero_def split: if_splits)
next
  show "defaults initialSchedules = DEFAULT_SLOTS"
    by (simp add: initialSchedules_def)
next
  show "map (\<lambda>s. (s_startHour s, s_endHour s)) DEFAULT_SLOTS =
     [(Some 6, Some 8), (Some 8, Some 10), (Some 10, Some 12), (Some 12, Some 14),
      (Some 14, Some 16), (Some 16, Some 18), (Some 18, Some 20)]"
    by (simp add: DEFAULT_SLOTS_def mkSlot_def)
qed

theorem getSlotsForLocation_defaults_witness:
  "getSlotsForLocation initialSchedules ''hall-a'' = DEFAULT_SLOTS \<and>
   length (getSlotsForLocation initialSchedules ''hall-a'') = 7 \<and>
   getSlotsForLocation (setSlotsForLocation initialSchedules (\<lambda>i. ''slot-new'') ''hall-a'' [slot_7_9])
       ''hall-a'' = [slot_7_9] \<and>
   getSlotsForLocation
       (resetToDefaults (setSlotsForLocation initialSchedules (\<lambda>i. ''slot-new'') ''hall-a'' [slot_7_9])
          ''hall-a'') ''hall-a'' = DEFAULT_SLOTS \<and>
   length (defaults (snd (addGlobalSlot initialSchedules ''g-new'' ''8:00 PM - 10:00 PM'' 20 22 1 4)))
     = 8"
proof -
  have none: "''hall-a'' = [] \<or> custom initialSchedules ''hall-a'' = None \<or>
              custom initialSchedules ''hall-a'' = Some []"
    by (simp add: initialSchedules_def)
  have a: "getSlotsForLocation initialSchedules ''hall-a'' = DEFAULT_SLOTS"
    using getSlotsForLocation_defaults [THEN conjunct1, rule_format, OF none]
    by (simp add: initialSchedules_def)
  have b: "getSlotsForLocation (setSlotsForLocation initialSchedules (\<lambda>i. ''slot-new'') ''hall-a'' [slot_7_9])
       ''hall-a'' = [slot_7_9]"
    by (simp add: getSlotsForLocation_def setSlotsForLocation_def normalizeSlot_def slot_7_9_def
          mkSlot_def truthy_def isSpace_def trim_def orZero_def)
  have c: "getSlotsForLocation
       (resetToDefaults (setSlotsForLocation initialSchedules (\<lambda>i. ''slot-new'') ''hall-a'' [slot_7_9])
          ''hall-a'') ''hall-a'' = DEFAULT_SLOTS"
    using getSlotsForLocation_defaults [THEN conjunct2, THEN conjunct1,
            of "setSlotsForLocation initialSchedules (\<lambda>i. ''slot-new'') ''hall-a'' [slot_7_9]" "''hall-a''"]
    by (simp add: setSlotsForLocation_def initialSchedules_def)
  have ok: "fst (addGlobalSlot initialSchedules ''g-new'' ''8:00 PM - 10:00 PM'' 20 22 1 4) = []"
    by (simp add: addGlobalSlot_def Let_def isSpace_def trim_def)
  from getSlotsForLocation_defaults [THEN conjunct2, THEN conjunct2, THEN conjunct2,
          THEN conjunct2, THEN conjunct2, THEN conjunct2, THEN conjunct2, THEN conjunct1,
          rule_format, OF ok]
  obtain new where "defaults (snd (addGlobalSlot initialSchedules ''g-new'' ''8:00 PM - 10:00 PM'' 20 22 1 4))
      = defaults initialSchedules @ [new]" by blast
  then have d: "length (defaults (snd (addGlobalSlot initialSchedules ''g-new'' ''8:00 PM - 10:00 PM'' 20 22 1 4)))
      = 8"
    by (simp add: initialSchedules_def DEFAULT_SLOTS_def)
  show ?thesis using a b c d by (simp add: DEFAULT_SLOTS_def)
qed

text \<open>
  C8 as stated fails: after Add global slot, a location without a stored list gets
  eight slots, the last one 20:00-22:00, and a reset installs the same eight.
\<close>

theorem added_global_slot_counterexample:
  "custom withGlobalSlot ''hall-a'' = None \<and>
   length (getSlotsForLocation withGlobalSlot ''hall-a'') = 8 \<and>
   map (\<lambda>s. (s_startHour s, s_endHour s)) (getSlotsForLocation withGlobalSlot ''hall-a'') =
     [(Some 6, Some 8), (Some 8, Some 10), (Some 10, Some 12), (Some 12, Some 14),
      (Some 14, Some 16), (Some 16, Some 18), (Some 18, Some 20), (Some 20, Some 22)] \<and>
   length (getSlotsForLocation (resetToDefaults withGlobalSlot ''hall-a'') ''hall-a'') = 8"
  by (simp add: withGlobalSlot_def addGlobalSlot_def initialSchedules_def getSlotsForLocation_def
        resetToDefaults_def DEFAULT_SLOTS_def mkSlot_def normalizeSlot_def trim_def isSpace_def
        Let_def truthy_def orZero_def)

section \<open>Resolving the hours of a booking\<close>

text \<open>
  Parsed from its label alone, each of the seven default slots gets the hours it declares.
\<close>

lemma default_labels_parse_to_their_hours:
  "map labelHours (map (\<lambda>s. volunteerBooking ''bk'' 0 usrV hallA ''2025-01-10'' s) DEFAULT_SLOTS) =
     map (\<lambda>s. Some (slotRange s)) DEFAULT_SLOTS"
  by (simp add: labelHours_def volunteerBooking_def DEFAULT_SLOTS_def mkSlot_def slotRange_def
        orZero_def truthy_def matchLabelAt_def isDigit_def isSpace_def digitsToInt_def isPM_def)

text \<open>
  C9, amended. The reports resolve the hours of a booking by the first of four
  strategies that yields a result, in this order: the stored \<open>startHour\<close> and \<open>endHour\<close>
  (both present); the slot with the booking's \<open>slotId\<close> in the catalog of its location;
  the hours parsed from the label (from the slot id when there is no label); the hours
  parsed from the slot id; and 0-0 when all fail. Conflict detection resolves
  differently: the catalog slot first, else the stored hours with a missing hour read as
  0; it parses nothing.
\<close>

theorem time_bounds_resolution_order:
  "slotHoursFromBooking sch b =
     firstResolved [explicitHours b, catalogHours sch b, labelHours b, idHours b] \<and>
   slotRange (existingSlotOf sch b) =
     firstResolved [catalogHours sch b, Some (orZero (b_startHour b), orZero (b_endHour b))]"
proof
  show "slotHoursFromBooking sch b =
     firstResolved [explicitHours b, catalogHours sch b, labelHours b, idHours b]"
    by (cases "b_startHour b"; cases "b_endHour b")
       (auto simp: slotHoursFromBooking_def explicitHours_def catalogHours_def labelHours_def
          idHours_def slotRange_def Let_def split: option.splits)
  show "slotRange (existingSlotOf sch b) =
     firstResolved [catalogHours sch b, Some (orZero (b_startHour b), orZero (b_endHour b))]"
    by (simp add: slotRange_def existingSlotOf_def catalogHours_def orZero_def split: option.splits)
qed

theorem time_bounds_resolution_examples:
  "slotHoursFromBooking editedSchedules gridBooking = (6, 8) \<and>
   slotHoursFromBooking initialSchedules bookingV = (14, 16) \<and>
   slotHoursFromBooking initialSchedules legacyBooking = (9, 11) \<and>
   slotHoursFromBooking initialSchedules
     (legacyBooking\<lparr>b_slotLabel := Some ''Morning shift'', b_slotId := Some ''shift 9 to 11''\<rparr>) = (9, 11) \<and>
   slotHoursFromBooking initialSchedules
     (legacyBooking\<lparr>b_slotLabel := Some ''Morning shift'', b_slotId := Some ''morning''\<rparr>) = (0, 0) \<and>
   slotRange (existingSlotOf editedSchedules gridBooking) = (7, 9) \<and>
   slotRange (existingSlotOf initialSchedules bookingA) = (6, 8)"
  unfolding time_bounds_resolution_order [THEN conjunct1] time_bounds_resolution_order [THEN conjunct2]
  by (simp add: slotRange_def explicitHours_def catalogHours_def labelHours_def idHours_def
        gridBooking_def bookingV_def bookingA_def legacyBooking_def legacySlot_def
        makeBooking_def volunteerBooking_def
        editedSchedules_def initialSchedules_def setSlotsForLocation_def normalizeSlot_def
        getSlotsForLocation_def DEFAULT_SLOTS_def mkSlot_def slot_6_8_def slot_14_16_def
        slotMapEntry_def hallA_def vol1_def usrV_def truthy_def orZero_def trim_def isSpace_def
        matchLabelAt_def matchIdAt_def isDigit_def digitsToInt_def isPM_def)

text \<open>
  C9 as stated fails for conflict detection. A self-service booking of a slot that is
  no longer in the catalog resolves to 9-11 in the reports and to 0-0 in the detector,
  which then finds no conflict with the very same hours; and a slot edited after an
  assignment resolves to the stored 6-8 in the reports and to the catalog's 7-9 in the
  detector.
\<close>

theorem conflict_resolution_order_counterexample:
  "slotHoursFromBooking initialSchedules legacyBooking = (9, 11) \<and>
   slotRange (existingSlotOf initialSchedules legacyBooking) = (0, 0) \<and>
   detectConflictFor initialSchedules [legacyBooking] (Some ''v1@example.com'') ''2025-01-10'' legacySlot
     = None \<and>
   slotHoursFromBooking editedSchedules gridBooking = (6, 8) \<and>
   slotRange (existingSlotOf editedSchedules gridBooking) = (7, 9)"
  by (simp add: slotHoursFromBooking_def explicitHours_def catalogHours_def labelHours_def idHours_def
        detectConflictFor_def getAssignmentsForVolunteerOnDate_def matchesVolunteerOnDate_def
        toLowerCase_def toLowerChar_def rangesOverlap_def
        slotRange_def existingSlotOf_def
        gridBooking_def legacyBooking_def legacySlot_def
        makeBooking_def volunteerBooking_def
        editedSchedules_def initialSchedules_def setSlotsForLocation_def normalizeSlot_def
        getSlotsForLocation_def DEFAULT_SLOTS_def mkSlot_def slot_6_8_def
        hallA_def vol1_def usrV_def truthy_def orZero_def trim_def isSpace_def
        matchLabelAt_def matchIdAt_def isDigit_def digitsToInt_def isPM_def)

section \<open>Reading a missing status\<close>

text \<open>
  A booking made through either self-service handler has no status. The attendance
  summaries, the badges, the CSV export and the printed report by location read it as
  assigned.
\<close>

lemma self_booking_read_as_assigned:
  "b_status (volunteerBooking newId now usr loc d ts) = None \<and>
   assigned (attendanceSummary [volunteerBooking newId now usr loc d ts]) = 1 \<and>
   checkedIn (attendanceSummary [volunteerBooking newId now usr loc d ts]) = 0 \<and>
   noShows (attendanceSummary [volunteerBooking newId now usr loc d ts]) = 0 \<and>
   cancelled (attendanceSummary [volunteerBooking newId now usr loc d ts]) = 0 \<and>
   renderStatusBadge (b_status (volunteerBooking newId now usr loc d ts)) = BadgeAssigned \<and>
   renderStatusReadOnly (b_status (volunteerBooking newId now usr loc d ts)) = BadgeAssigned \<and>
   exportStatus (volunteerBooking newId now usr loc d ts) = ''assigned'' \<and>
   printStatusCell ''location'' (volunteerBooking newId now usr loc d ts) = ''assigned''"
  by (simp add: volunteerBooking_def attendanceSummary_def renderStatusBadge_def
        renderStatusReadOnly_def exportStatus_def printStatusCell_def truthy_def escapeHtml_def)

text \<open>
  C10. Every reader of the status should read a missing status as assigned. The printed
  reports by volunteer and by date range do not: their status cell is empty for a
  self-service booking, where the printed report by location shows \<open>assigned\<close>.
\<close>

theorem print_report_blank_status:
  "b_status (volunteerBooking newId now usr loc d ts) = None \<and>
   printStatusCell ''location'' (volunteerBooking newId now usr loc d ts) = ''assigned'' \<and>
   printStatusCell ''volunteer'' (volunteerBooking newId now usr loc d ts) = [] \<and>
   printStatusCell ''date-range'' (volunteerBooking newId now usr loc d ts) = []"
  by (simp add: volunteerBooking_def printStatusCell_def truthy_def escapeHtml_def)

end
